theory Spec2Isabelle
  imports Complex_Main
begin

section \<open>Values shared by the services\<close>

text \<open>
  A call that may throw (a transport request, a storage write) is modelled by its
  outcome: the value it returns, or the error it throws.
\<close>

datatype 'a outcome = Returns 'a | Throws string

text \<open>
  JavaScript indexing \<open>xs[i]\<close>: the element, or \<open>undefined\<close> (\<open>None\<close>) out of range.
\<close>

definition js_index :: "'a list \<Rightarrow> int \<Rightarrow> 'a option" where
  "js_index xs i = (if 0 \<le> i \<and> i < int (length xs) then Some (xs ! nat i) else None)"

text \<open>
  Strings. \<open>String(n)\<close> and \<open>n.toString()\<close> of an integer, \<open>s.startsWith(p)\<close>,
  \<open>s.replace(p, r)\<close> (the first occurrence only) and \<open>parseInt(s, 10)\<close>, with
  \<open>None\<close> for \<open>NaN\<close>.
\<close>

definition digit_char :: "nat \<Rightarrow> char" where
  "digit_char d = ''0123456789'' ! d"

fun string_of_nat :: "nat \<Rightarrow> string" where
  "string_of_nat n =
     (if n < 10 then [digit_char n] else string_of_nat (n div 10) @ [digit_char (n mod 10)])"

declare string_of_nat.simps [simp del]

definition string_of_int :: "int \<Rightarrow> string" where
  "string_of_int i = (if i < 0 then CHR ''-'' # string_of_nat (nat (- i)) else string_of_nat (nat i))"

definition startsWith :: "string \<Rightarrow> string \<Rightarrow> bool" where
  "startsWith s p = (take (length p) s = p)"

fun replace_first :: "string \<Rightarrow> string \<Rightarrow> string \<Rightarrow> string" where
  "replace_first p r [] = (if p = [] then r else [])"
| "replace_first p r (c # cs) =
     (if startsWith (c # cs) p then r @ drop (length p) (c # cs)
      else c # replace_first p r cs)"

definition is_digit :: "char \<Rightarrow> bool" where
  "is_digit c = (48 \<le> (of_char c :: nat) \<and> (of_char c :: nat) \<le> 57)"

definition is_space :: "char \<Rightarrow> bool" where
  "is_space c = ((of_char c :: nat) \<in> {9, 10, 11, 12, 13, 32})"

definition digits_value :: "string \<Rightarrow> nat" where
  "digits_value ds = foldl (\<lambda>acc c. 10 * acc + (of_char c - 48)) 0 ds"

definition parseInt :: "string \<Rightarrow> int option" where
  "parseInt s =
     (let s1 = dropWhile is_space s;
          neg = (case s1 of c # _ \<Rightarrow> c = CHR ''-'' | [] \<Rightarrow> False);
          s2 = (case s1 of c # r \<Rightarrow> if c = CHR ''-'' \<or> c = CHR ''+'' then r else s1 | [] \<Rightarrow> s1);
          ds = takeWhile is_digit s2
      in if ds = [] then None
         else Some (if neg then - int (digits_value ds) else int (digits_value ds)))"

section \<open>models/types.ts: defense templates\<close>

record DefenseTemplate =
  t_score :: int
  t_messages :: "string list"

definition DEFENSE_TEMPLATES :: "DefenseTemplate list" where
  "DEFENSE_TEMPLATES =
     [\<lparr>t_score = 3,
       t_messages =
         [''Trusted and reliable community member. I vouch for their credibility.'',
          ''Known for integrity and positive contributions to the ecosystem.'',
          ''Solid reputation backed by consistent positive interactions.'',
          ''A valued member of the community with proven trustworthiness.'']\<rparr>,
      \<lparr>t_score = 2,
       t_messages =
         [''Positive experience with this community member.'',
          ''Reliable and trustworthy in my interactions.'',
          ''Good standing member of the community.'']\<rparr>]"

text \<open>
  \<open>DEFENSE_TEMPLATES.find(t => t.score === score) || DEFENSE_TEMPLATES[0]\<close>: the bucket
  whose score is the requested one, else the first bucket.
\<close>

definition select_template :: "int \<Rightarrow> DefenseTemplate" where
  "select_template score =
     (case find (\<lambda>t. t_score t = score) DEFENSE_TEMPLATES of
        Some t \<Rightarrow> t
      | None \<Rightarrow> hd DEFENSE_TEMPLATES)"

text \<open>
  \<open>getRandomDefenseMessage\<close>. The draw of \<open>Math.random()\<close> is the parameter \<open>rnd\<close>
  (a number in \<open>[0, 1)\<close>); the message is \<open>template.messages[Math.floor(rnd * length)]\<close>,
  \<open>None\<close> standing for \<open>undefined\<close>.
\<close>

definition getRandomDefenseMessage :: "real \<Rightarrow> int \<Rightarrow> int \<times> string option" where
  "getRandomDefenseMessage rnd score =
     (let template = select_template score;
          message = js_index (t_messages template)
                      \<lfloor>rnd * real (length (t_messages template))\<rfloor>
      in (t_score template, message))"

section \<open>models/types.ts: activities\<close>

text \<open>
  A field typed \<open>number | string\<close>. Numbers are modelled as integers; fractional values
  and values beyond the range of a JavaScript date are outside the model.
\<close>

datatype js_prim = Num int | Str string

text \<open>JavaScript truthiness of such a value: a non-zero number, a non-empty string.\<close>

fun truthy :: "js_prim \<Rightarrow> bool" where
  "truthy (Num n) = (n \<noteq> 0)"
| "truthy (Str s) = (s \<noteq> [])"

datatype ActivityType = review | slash | vouch | unvouch | attestation | vote | reply

record ActivityAuthor =
  au_profileId :: int
  au_name :: "string option"
  au_username :: "string option"
  au_avatar :: "string option"
  au_primaryAddress :: string

record ActivityData =
  d_id :: "js_prim option"
  d_score :: "js_prim option"
  d_comment :: "string option"
  d_createdAt :: "js_prim option"

record EthosActivity =
  a_id :: "string option"
  a_type :: ActivityType
  a_data :: "ActivityData option"
  a_createdAt :: "string option"
  a_timestamp :: "int option"
  a_author :: ActivityAuthor

text \<open>\<open>activity.data?.f\<close>: the field of \<open>data\<close>, \<open>undefined\<close> when \<open>data\<close> is missing.\<close>

definition data_field :: "(ActivityData \<Rightarrow> 'a option) \<Rightarrow> EthosActivity \<Rightarrow> 'a option" where
  "data_field f a = (case a_data a of None \<Rightarrow> None | Some d \<Rightarrow> f d)"

text \<open>
  The parts of the JavaScript runtime that the services call and that are not modelled
  here are parameters: \<open>new Date(s).getTime()\<close> on a string (\<open>None\<close> for an invalid date)
  and \<open>Number(s)\<close> on a string (\<open>None\<close> for \<open>NaN\<close>).
\<close>

record runtime =
  date_parse :: "string \<Rightarrow> int option"
  to_number :: "string \<Rightarrow> int option"

fun js_Number :: "runtime \<Rightarrow> js_prim \<Rightarrow> int option" where
  "js_Number rt (Num n) = Some n"
| "js_Number rt (Str s) = to_number rt s"

section \<open>services/monitor.service.ts: timestamps\<close>

definition seconds_to_ms :: "int \<Rightarrow> int" where
  "seconds_to_ms ts = (if ts < 10000000000 then ts * 1000 else ts)"

text \<open>
  \<open>parseActivityTimestamp\<close>: instants are milliseconds since the epoch, \<open>now\<close> is the
  clock at the call (\<open>new Date()\<close>). Each \<open>if\<close> of the source tests its field for
  truthiness before using it.
\<close>

definition parseActivityTimestamp :: "runtime \<Rightarrow> int \<Rightarrow> EthosActivity \<Rightarrow> int" where
  "parseActivityTimestamp rt now a =
     (case (case a_timestamp a of Some t \<Rightarrow> if t \<noteq> 0 then Some (seconds_to_ms t) else None
            | None \<Rightarrow> None) of
        Some ts \<Rightarrow> ts
      | None \<Rightarrow>
         (case (case a_createdAt a of Some s \<Rightarrow> if s \<noteq> [] then date_parse rt s else None
                | None \<Rightarrow> None) of
            Some parsed \<Rightarrow> parsed
          | None \<Rightarrow>
             (case (case data_field d_createdAt a of
                      Some c \<Rightarrow> if truthy c then map_option seconds_to_ms (js_Number rt c)
                                else None
                    | None \<Rightarrow> None) of
                Some ts \<Rightarrow> ts
              | None \<Rightarrow> now)))"

text \<open>
  The fallback order as the specification words it: the numeric timestamp when the
  activity has one, then the ISO string when it parses, then the embedded timestamp,
  else the ingestion time.
\<close>

definition documented_timestamp :: "runtime \<Rightarrow> int \<Rightarrow> EthosActivity \<Rightarrow> int" where
  "documented_timestamp rt now a =
     (case a_timestamp a of
        Some t \<Rightarrow> seconds_to_ms t
      | None \<Rightarrow>
         (case (case a_createdAt a of Some s \<Rightarrow> date_parse rt s | None \<Rightarrow> None) of
            Some parsed \<Rightarrow> parsed
          | None \<Rightarrow>
             (case (case data_field d_createdAt a of
                      Some c \<Rightarrow> map_option seconds_to_ms (js_Number rt c)
                    | None \<Rightarrow> None) of
                Some ts \<Rightarrow> ts
              | None \<Rightarrow> now)))"

section \<open>services/token.service.ts: the credential watchdog\<close>

record PrivyTokenPayload =
  p_sid :: string
  p_iss :: string
  p_iat :: int
  p_aud :: string
  p_sub :: string
  p_exp :: int

record TokenStatus =
  valid :: bool
  expiresAt :: "int option"
  expiresIn :: "int option"
  isExpired :: bool
  isExpiringSoon :: bool
  userId :: "string option"
  sessionId :: "string option"

text \<open>
  The state of the service: the current token and its decoded payload. The timer and the
  callback of \<open>startMonitoring\<close> are not part of the credential.
\<close>

record TokenService =
  currentToken :: "string option"
  tokenPayload :: "PrivyTokenPayload option"

text \<open>
  \<open>new Date(ms).toISOString()\<close> throws a RangeError when \<open>ms\<close> is beyond the range of a
  date, 8.64e15 milliseconds either side of the epoch.
\<close>

definition date_in_range :: "int \<Rightarrow> bool" where
  "date_in_range ms = (\<bar>ms\<bar> \<le> 8640000000000000)"

text \<open>
  \<open>decodeToken\<close>. \<open>jwt\<close> is \<open>jwt.decode\<close> of the jsonwebtoken library, a parameter:
  it returns a payload or \<open>null\<close>, or throws. The payload is stored before the log line
  that formats its expiry; an exception of either is caught and \<open>null\<close> returned.
\<close>

definition decodeToken ::
  "(string \<Rightarrow> PrivyTokenPayload option outcome) \<Rightarrow> string \<Rightarrow> TokenService
     \<Rightarrow> PrivyTokenPayload option \<times> TokenService" where
  "decodeToken jwt token ts =
     (case jwt token of
        Returns (Some decoded) \<Rightarrow>
          (let ts' = ts\<lparr>tokenPayload := Some decoded\<rparr>
           in if date_in_range (p_exp decoded * 1000) then (Some decoded, ts') else (None, ts'))
      | Returns None \<Rightarrow> (None, ts)
      | Throws e \<Rightarrow> (None, ts))"

definition getStatus :: "int \<Rightarrow> TokenService \<Rightarrow> TokenStatus" where
  "getStatus now_ms ts =
     (case (if currentToken ts = None \<or> currentToken ts = Some [] then None
            else tokenPayload ts) of
        None \<Rightarrow>
          \<lparr>valid = False, expiresAt = None, expiresIn = None, isExpired = True,
           isExpiringSoon = True, userId = None, sessionId = None\<rparr>
      | Some payload \<Rightarrow>
          (let now = now_ms div 1000;
               expires_in = p_exp payload - now;
               is_expired = (expires_in \<le> 0);
               is_expiring_soon = (expires_in < 3600)
           in \<lparr>valid = \<not> is_expired, expiresAt = Some (p_exp payload * 1000),
               expiresIn = Some (max 0 expires_in), isExpired = is_expired,
               isExpiringSoon = is_expiring_soon, userId = Some (p_sub payload),
               sessionId = Some (p_sid payload)\<rparr>))"

record UpdateResult =
  u_success :: bool
  u_status :: TokenStatus
  u_error :: "string option"

text \<open>
  \<open>updateToken\<close>. The second component of the state is the Authorization header of the
  network client, set by \<open>ethosService.setToken\<close>. \<open>updateEnvFile\<close> swallows its own
  errors and touches only the \<open>.env\<close> file, which is not modelled. The clock \<open>now_ms\<close> is
  \<open>Date.now()\<close>, read as one instant for the whole call.
\<close>

definition updateToken ::
  "(string \<Rightarrow> PrivyTokenPayload option outcome) \<Rightarrow> int \<Rightarrow> string
     \<Rightarrow> TokenService \<times> string option \<Rightarrow> UpdateResult \<times> TokenService \<times> string option" where
  "updateToken jwt now_ms newToken st =
     (case st of (ts, auth) \<Rightarrow>
        (case decodeToken jwt newToken ts of
           (None, ts1) \<Rightarrow>
             (\<lparr>u_success = False, u_status = getStatus now_ms ts1,
               u_error = Some ''Invalid token format''\<rparr>, ts1, auth)
         | (Some payload, ts1) \<Rightarrow>
             (let now = now_ms div 1000
              in if p_exp payload \<le> now then
                   (\<lparr>u_success = False, u_status = getStatus now_ms ts1,
                     u_error = Some ''Token is already expired''\<rparr>, ts1, auth)
                 else
                   (let ts2 = ts1\<lparr>currentToken := Some newToken, tokenPayload := Some payload\<rparr>
                    in (\<lparr>u_success = True, u_status = getStatus now_ms ts2, u_error = None\<rparr>,
                        ts2, Some (''Bearer '' @ newToken))))))"

section \<open>services/database.service.ts: the store\<close>

datatype AlertType = NEGATIVE_REVIEW | SLASH | UNVOUCH
datatype AlertChannel = TELEGRAM | DISCORD | TWITTER | ALL
datatype AlertStatus = ALERT_PENDING | ALERT_CONFIRMED | ALERT_IGNORED | ALERT_EXPIRED
datatype DefenseStatus = PENDING | CONFIRMED | POSTED | FAILED

text \<open>
  The rows of the tables. Columns that the storage layer stamps with its own clock
  (\<open>updatedAt\<close>, \<open>sentAt\<close>, \<open>respondedAt\<close>, \<open>postedAt\<close>, \<open>runAt\<close>) are left out: no
  operation modelled here reads them.
\<close>

record Relation =
  rel_id :: string
  rel_userkey :: string
  rel_name :: "string option"
  rel_address :: string
  rel_avatarUrl :: "string option"
  rel_score :: int

record Review =
  rv_id :: string
  rv_relationId :: string
  rv_authorKey :: string
  rv_authorName :: "string option"
  rv_authorAddr :: "string option"
  rv_score :: int
  rv_comment :: "string option"
  rv_activityId :: "string option"
  rv_isNegative :: bool
  rv_alerted :: bool
  rv_createdAt :: int

record Alert =
  al_id :: string
  al_reviewId :: string
  al_relationId :: string
  al_type :: AlertType
  al_channel :: AlertChannel
  al_messageId :: "string option"
  al_status :: AlertStatus

record Defense =
  df_id :: string
  df_reviewId :: string
  df_targetKey :: string
  df_score :: int
  df_comment :: string
  df_status :: DefenseStatus
  df_ethosReviewId :: "string option"
  df_txHash :: "string option"
  df_error :: "string option"

record MonitorLog =
  ml_relationsChecked :: nat
  ml_reviewsFound :: nat
  ml_newNegative :: nat
  ml_alertsSent :: nat
  ml_errors :: "string option"
  ml_duration :: int

record Store =
  relations :: "Relation list"
  reviews :: "Review list"
  alerts :: "Alert list"
  defenses :: "Defense list"
  monitorLogs :: "MonitorLog list"

text \<open>
  Modelled from the spec: the Prisma schema is not among the sources. The queries fix what
  is used of it: \<open>findUnique\<close> on \<open>id\<close> and on \<open>activityId\<close> makes both unique among
  reviews, so \<open>create\<close> throws on a duplicate of either; \<open>update\<close> throws when no row
  has the id; an alert starts pending and a review not alerted; the ids of alerts and
  defenses are assigned by the storage layer, here the ordinal of the row.
\<close>

definition upsertRelation ::
  "string \<Rightarrow> string \<Rightarrow> string option \<Rightarrow> string \<Rightarrow> string option \<Rightarrow> Store \<Rightarrow> Store" where
  "upsertRelation ident userkey name address avatarUrl st =
     (if list_ex (\<lambda>r. rel_id r = ident) (relations st) then
        st\<lparr>relations :=
             map (\<lambda>r. if rel_id r = ident then r\<lparr>rel_name := name, rel_avatarUrl := avatarUrl\<rparr>
                       else r) (relations st)\<rparr>
      else
        st\<lparr>relations := relations st @
             [\<lparr>rel_id = ident, rel_userkey = userkey, rel_name = name, rel_address = address,
               rel_avatarUrl = avatarUrl, rel_score = 0\<rparr>]\<rparr>)"

definition getRelationById :: "string \<Rightarrow> Store \<Rightarrow> Relation option" where
  "getRelationById ident st = find (\<lambda>r. rel_id r = ident) (relations st)"

definition reviewExists :: "string \<Rightarrow> Store \<Rightarrow> bool" where
  "reviewExists activityId st = list_ex (\<lambda>r. rv_activityId r = Some activityId) (reviews st)"

text \<open>The argument of \<open>createReview\<close>; the negativity flag is not part of it.\<close>

record ReviewData =
  rd_id :: string
  rd_relationId :: string
  rd_authorKey :: string
  rd_authorName :: "string option"
  rd_authorAddr :: "string option"
  rd_score :: int
  rd_comment :: "string option"
  rd_activityId :: "string option"
  rd_createdAt :: int

definition createReview :: "ReviewData \<Rightarrow> Store \<Rightarrow> (Review \<times> Store) outcome" where
  "createReview d st =
     (if list_ex (\<lambda>r. rv_id r = rd_id d) (reviews st)
         \<or> (rd_activityId d \<noteq> None
             \<and> list_ex (\<lambda>r. rv_activityId r = rd_activityId d) (reviews st))
      then Throws ''Unique constraint failed''
      else
        (let row = \<lparr>rv_id = rd_id d, rv_relationId = rd_relationId d,
                    rv_authorKey = rd_authorKey d, rv_authorName = rd_authorName d,
                    rv_authorAddr = rd_authorAddr d, rv_score = rd_score d,
                    rv_comment = rd_comment d, rv_activityId = rd_activityId d,
                    rv_isNegative = (rd_score d < 0), rv_alerted = False,
                    rv_createdAt = rd_createdAt d\<rparr>
         in Returns (row, st\<lparr>reviews := reviews st @ [row]\<rparr>)))"

definition markReviewAlerted :: "string \<Rightarrow> Store \<Rightarrow> Store outcome" where
  "markReviewAlerted ident st =
     (if list_ex (\<lambda>r. rv_id r = ident) (reviews st) then
        Returns (st\<lparr>reviews :=
                   map (\<lambda>r. if rv_id r = ident then r\<lparr>rv_alerted := True\<rparr> else r) (reviews st)\<rparr>)
      else Throws ''Record to update not found'')"

definition createAlert ::
  "string \<Rightarrow> string \<Rightarrow> AlertType \<Rightarrow> AlertChannel \<Rightarrow> string option \<Rightarrow> Store \<Rightarrow> Store" where
  "createAlert reviewId relationId ty channel messageId st =
     st\<lparr>alerts := alerts st @
          [\<lparr>al_id = ''alert_'' @ string_of_nat (length (alerts st)), al_reviewId = reviewId,
            al_relationId = relationId, al_type = ty, al_channel = channel,
            al_messageId = messageId, al_status = ALERT_PENDING\<rparr>]\<rparr>"

definition updateAlertStatus :: "string \<Rightarrow> AlertStatus \<Rightarrow> Store \<Rightarrow> Store outcome" where
  "updateAlertStatus ident status st =
     (if list_ex (\<lambda>a. al_id a = ident) (alerts st) then
        Returns (st\<lparr>alerts :=
                   map (\<lambda>a. if al_id a = ident then a\<lparr>al_status := status\<rparr> else a) (alerts st)\<rparr>)
      else Throws ''Record to update not found'')"

definition getAlertById :: "string \<Rightarrow> Store \<Rightarrow> Alert option" where
  "getAlertById ident st = find (\<lambda>a. al_id a = ident) (alerts st)"

definition createDefense ::
  "string \<Rightarrow> string \<Rightarrow> int \<Rightarrow> string \<Rightarrow> DefenseStatus \<Rightarrow> Store \<Rightarrow> Store" where
  "createDefense reviewId targetKey score comment status st =
     st\<lparr>defenses := defenses st @
          [\<lparr>df_id = ''defense_'' @ string_of_nat (length (defenses st)), df_reviewId = reviewId,
            df_targetKey = targetKey, df_score = score, df_comment = comment,
            df_status = status, df_ethosReviewId = None, df_txHash = None,
            df_error = None\<rparr>]\<rparr>"

text \<open>
  \<open>updateDefenseStatus\<close>: of the optional \<open>extra\<close>, a field that is given is written,
  one that is not keeps the column.
\<close>

definition updated_defense ::
  "DefenseStatus \<Rightarrow> string option \<Rightarrow> string option \<Rightarrow> string option \<Rightarrow> Defense \<Rightarrow> Defense" where
  "updated_defense status ethosReviewId txHash err d =
     d\<lparr>df_status := status,
       df_ethosReviewId := (case ethosReviewId of None \<Rightarrow> df_ethosReviewId d | Some v \<Rightarrow> Some v),
       df_txHash := (case txHash of None \<Rightarrow> df_txHash d | Some v \<Rightarrow> Some v),
       df_error := (case err of None \<Rightarrow> df_error d | Some v \<Rightarrow> Some v)\<rparr>"

definition updateDefenseStatus ::
  "string \<Rightarrow> DefenseStatus \<Rightarrow> string option \<Rightarrow> string option \<Rightarrow> string option
     \<Rightarrow> Store \<Rightarrow> Store outcome" where
  "updateDefenseStatus ident status ethosReviewId txHash err st =
     (if list_ex (\<lambda>d. df_id d = ident) (defenses st) then
        Returns (st\<lparr>defenses :=
          map (\<lambda>d. if df_id d = ident then updated_defense status ethosReviewId txHash err d
                    else d) (defenses st)\<rparr>)
      else Throws ''Record to update not found'')"

definition getPendingDefense :: "string \<Rightarrow> Store \<Rightarrow> Defense option" where
  "getPendingDefense reviewId st =
     find (\<lambda>d. df_reviewId d = reviewId \<and> (df_status d = PENDING \<or> df_status d = CONFIRMED))
       (defenses st)"

text \<open>
  \<open>logMonitorRun\<close>. A write can fail in the storage layer; \<open>fault\<close> is that failure,
  when there is one.
\<close>

definition logMonitorRun :: "string option \<Rightarrow> MonitorLog \<Rightarrow> Store \<Rightarrow> Store outcome" where
  "logMonitorRun fault row st =
     (case fault of
        Some e \<Rightarrow> Throws e
      | None \<Rightarrow> Returns (st\<lparr>monitorLogs := monitorLogs st @ [row]\<rparr>))"

section \<open>services/ethos.service.ts: the network client\<close>

text \<open>
  A request of the HTTP client: the body of the response, or a failure with the status of
  the response that came with it (none when no response came) and its message.
\<close>

datatype 'a http = Ok 'a | Failed "nat option" string

text \<open>
  The shape of a response body, as far as the client inspects it. A property read from
  the body is missing (or falsy), an array, or some other truthy value. The body itself is
  empty (falsy), an array, an object with its \<open>values\<close> and \<open>activities\<close> properties, or
  another truthy value such as a string. An element of an array, of vouches or of
  activities, can be \<open>null\<close> (\<open>None\<close>).
\<close>

datatype 'a field = Missing | Array "'a list" | NonArray

datatype 'a body = NoBody | Items "'a list" | Object "'a field" "'a field" | Other

text \<open>
  \<open>data?.values\<close>: on an array it is the method \<open>Array.prototype.values\<close>, a truthy value
  that is not an array.
\<close>

fun body_values :: "'a body \<Rightarrow> 'a field" where
  "body_values NoBody = Missing"
| "body_values (Items xs) = NonArray"
| "body_values (Object v a) = v"
| "body_values Other = Missing"

fun body_activities :: "'a body \<Rightarrow> 'a field" where
  "body_activities NoBody = Missing"
| "body_activities (Items xs) = Missing"
| "body_activities (Object v a) = a"
| "body_activities Other = Missing"

record EthosProfile =
  pf_name :: "string option"
  pf_username :: "string option"
  pf_avatar :: "string option"
  pf_primaryAddress :: string

record SubjectUser =
  su_profileId :: int
  su_displayName :: "string option"
  su_username :: "string option"
  su_avatarUrl :: "string option"
  su_primaryAddress :: "string option"
  su_userkeys :: "string list option"

text \<open>
  A vouch as the API sends it and as \<open>getVouches\<close> returns it. The fields that the
  monitor never reads (\<open>archived\<close>, \<open>comment\<close>, \<open>staked\<close>, the checksum and the dates) are
  left out.
\<close>

record RawVouch =
  rw_id :: "int option"
  rw_authorProfileId :: int
  rw_subjectProfileId :: int
  rw_subjectUser :: "SubjectUser option"

record EthosVouch =
  v_id :: int
  v_authorProfileId :: int
  v_subjectProfileId :: int
  v_subjectUser :: "SubjectUser option"

record ReviewResponse =
  rr_id :: "string option"
  rr_reviewId :: "string option"
  rr_txHash :: "string option"

text \<open>The endpoints of the external network, each a function of what is sent to it.\<close>

record EthosApi =
  wallet_http :: "string \<Rightarrow> EthosProfile http"
  profiles_http :: "string \<Rightarrow> EthosProfile http"
  vouches_http :: "int \<Rightarrow> RawVouch option body http"
  activities_http :: "string \<Rightarrow> EthosActivity option body http"
  reviews_http :: "string \<Rightarrow> int \<Rightarrow> string \<Rightarrow> ReviewResponse http"

definition profileIdToUserkey :: "int \<Rightarrow> string" where
  "profileIdToUserkey profileId = ''profileId:'' @ string_of_int profileId"

definition getProfileUrl :: "string \<Rightarrow> string" where
  "getProfileUrl address = ''https://app.ethos.network/profile/'' @ address"

text \<open>\<open>getProfile\<close> returns a profile or \<open>null\<close>, or throws the error of the request.\<close>

definition getProfile :: "EthosApi \<Rightarrow> string \<Rightarrow> EthosProfile option outcome" where
  "getProfile api userkey =
     (let standard =
            (case profiles_http api userkey of
               Ok profile \<Rightarrow> Returns (Some profile)
             | Failed status msg \<Rightarrow> if status = Some 404 then Returns None else Throws msg)
      in if startsWith userkey ''address:'' \<or> startsWith userkey ''0x'' then
           (case wallet_http api (replace_first ''address:'' [] userkey) of
              Ok profile \<Rightarrow> Returns (Some profile)
            | Failed status msg \<Rightarrow> standard)
         else standard)"

text \<open>\<open>extractProfileId\<close>: \<open>Some None\<close> is the number \<open>NaN\<close>, \<open>None\<close> is \<open>null\<close>.\<close>

definition extractProfileId :: "string \<Rightarrow> int option option" where
  "extractProfileId userkey =
     (if startsWith userkey ''profileId:''
      then Some (parseInt (replace_first ''profileId:'' [] userkey))
      else None)"

definition convert_vouch :: "RawVouch \<Rightarrow> EthosVouch" where
  "convert_vouch v =
     \<lparr>v_id = (case rw_id v of Some i \<Rightarrow> if i \<noteq> 0 then i else rw_subjectProfileId v
               | None \<Rightarrow> rw_subjectProfileId v),
      v_authorProfileId = rw_authorProfileId v,
      v_subjectProfileId = rw_subjectProfileId v,
      v_subjectUser = rw_subjectUser v\<rparr>"

text \<open>
  \<open>getVouches\<close>. The whole body is one \<open>try\<close>: a failed request, a value without a
  \<open>map\<close> method and a \<open>null\<close> element (whose \<open>v.id\<close> throws inside \<open>map\<close>) all end in the
  \<open>catch\<close>, which returns the empty list.
\<close>

definition getVouches :: "EthosApi \<Rightarrow> string \<Rightarrow> EthosVouch list" where
  "getVouches api userkey =
     (case extractProfileId userkey of
        None \<Rightarrow> []
      | Some None \<Rightarrow> []
      | Some (Some profileId) \<Rightarrow>
          if profileId = 0 then []
          else
            (case vouches_http api profileId of
               Failed status msg \<Rightarrow> []
             | Ok data \<Rightarrow>
                 (case body_values data of
                    Array vs \<Rightarrow>
                      (case those vs of None \<Rightarrow> [] | Some raw \<Rightarrow> map convert_vouch raw)
                  | NonArray \<Rightarrow> []
                  | Missing \<Rightarrow>
                      (case data of
                         NoBody \<Rightarrow> []
                       | Items vs \<Rightarrow>
                           (case those vs of None \<Rightarrow> [] | Some raw \<Rightarrow> map convert_vouch raw)
                       | Object v a \<Rightarrow> []
                       | Other \<Rightarrow> []))))"

text \<open>
  \<open>getReceivedActivities\<close>: the list read from the body is returned as it is when it is
  an array; its elements are not looked at.
\<close>

definition getReceivedActivities :: "EthosApi \<Rightarrow> string \<Rightarrow> EthosActivity option list" where
  "getReceivedActivities api userkey =
     (case activities_http api userkey of
        Failed status msg \<Rightarrow> []
      | Ok data \<Rightarrow>
          (case body_values data of
             Array xs \<Rightarrow> xs
           | NonArray \<Rightarrow> []
           | Missing \<Rightarrow>
               (case body_activities data of
                  Array xs \<Rightarrow> xs
                | NonArray \<Rightarrow> []
                | Missing \<Rightarrow> [])))"

record PostResult =
  pr_success :: bool
  pr_reviewId :: "string option"
  pr_txHash :: "string option"
  pr_error :: "string option"

text \<open>\<open>a || b\<close> on optional strings: the first that is present and non-empty.\<close>

definition or_else :: "string option \<Rightarrow> string option \<Rightarrow> string option" where
  "or_else a b = (case a of Some s \<Rightarrow> if s \<noteq> [] then Some s else b | None \<Rightarrow> b)"

text \<open>
  \<open>postReview\<close>: the request goes out, whatever comes of it; the result tells success
  from failure and never throws. \<open>sent\<close> is the list of the review submissions that
  have reached the network, in order.
\<close>

definition postReview ::
  "EthosApi \<Rightarrow> string \<Rightarrow> int \<Rightarrow> string \<Rightarrow> (string \<times> int \<times> string) list
     \<Rightarrow> PostResult \<times> (string \<times> int \<times> string) list" where
  "postReview api targetUserkey score comment sent =
     ((case reviews_http api targetUserkey score comment of
         Ok data \<Rightarrow>
           \<lparr>pr_success = True, pr_reviewId = or_else (rr_id data) (rr_reviewId data),
            pr_txHash = rr_txHash data, pr_error = None\<rparr>
       | Failed status msg \<Rightarrow>
           \<lparr>pr_success = False, pr_reviewId = None, pr_txHash = None, pr_error = Some msg\<rparr>),
      sent @ [(targetUserkey, score, comment)])"

section \<open>services/alert.service.ts: the alert dispatcher\<close>

record AlertTarget =
  tg_name :: "string option"
  tg_address :: string
  tg_profileUrl :: string
  tg_profileId :: "int option"

record AlertAttacker =
  at_name :: "string option"
  at_address :: string
  at_profileId :: int

record AutoDefense =
  ad_enabled :: bool
  ad_requireConfirm :: bool
  ad_suggestedScore :: int
  ad_suggestedComment :: "string option"

record AlertPayload =
  ap_type :: AlertType
  ap_target :: AlertTarget
  ap_attacker :: AlertAttacker
  ap_score :: int
  ap_comment :: "string option"
  ap_timestamp :: int
  ap_reviewId :: string
  ap_relationId :: string
  ap_autoDefense :: "AutoDefense option"

text \<open>The values of \<open>config_values\<close> that the services read.\<close>

record Config =
  userKey :: string
  telegram_enabled :: bool
  telegram_chatId :: "string option"
  discord_enabled :: bool
  discord_webhookUrl :: "string option"
  twitter_enabled :: bool
  autoDefense_enabled :: bool
  autoDefense_requireConfirm :: bool
  autoDefense_defaultScore :: int

text \<open>
  The dispatcher holds a Telegram bot and a Twitter client when their constructors
  succeeded. The transports are the two requests that leave the process: \<open>sendMessage\<close>
  of the bot, which returns the number of the message, and the POST to the Discord
  webhook, which returns the \<open>id\<close> of the response when it has one. Either may throw.
  The message formatters read only fields that a payload always has and do not throw.
\<close>

record AlertService =
  telegramBot :: bool
  twitterClient :: bool

record Transports =
  telegram_send :: "AlertPayload \<Rightarrow> int outcome"
  discord_post :: "AlertPayload \<Rightarrow> string option outcome"

text \<open>A promise, once settled.\<close>

datatype 'a settled = Fulfilled 'a | Rejected string

definition present :: "string option \<Rightarrow> bool" where
  "present v = (case v of Some s \<Rightarrow> s \<noteq> [] | None \<Rightarrow> False)"

definition sendTelegramAlert ::
  "Config \<Rightarrow> AlertService \<Rightarrow> Transports \<Rightarrow> AlertPayload \<Rightarrow> string option settled" where
  "sendTelegramAlert cfg svc tr payload =
     (if \<not> telegramBot svc \<or> \<not> present (telegram_chatId cfg) then Fulfilled None
      else
        (case telegram_send tr payload of
           Returns message_id \<Rightarrow> Fulfilled (Some (string_of_int message_id))
         | Throws e \<Rightarrow> Fulfilled None))"

definition sendDiscordAlert ::
  "Config \<Rightarrow> Transports \<Rightarrow> AlertPayload \<Rightarrow> string option settled" where
  "sendDiscordAlert cfg tr payload =
     (if \<not> present (discord_webhookUrl cfg) then Fulfilled None
      else
        (case discord_post tr payload of
           Returns ident \<Rightarrow> Fulfilled ident
         | Throws e \<Rightarrow> Fulfilled None))"

definition sendTwitterAlert :: "AlertService \<Rightarrow> AlertPayload \<Rightarrow> string option settled" where
  "sendTwitterAlert svc payload =
     (if \<not> twitterClient svc then Fulfilled None
      else Fulfilled (Some ''twitter_dm_disabled''))"

record AlertResults =
  ar_telegram :: "string option"
  ar_discord :: "string option"
  ar_twitter :: "string option"

text \<open>
  \<open>promise.then(callback)\<close> under \<open>Promise.allSettled\<close>: the callback stores the value
  of a fulfilled promise; a rejected one is passed over.
\<close>

definition on_fulfilled :: "'a settled \<Rightarrow> ('a \<Rightarrow> 'r \<Rightarrow> 'r) \<Rightarrow> 'r \<Rightarrow> 'r" where
  "on_fulfilled promise callback results =
     (case promise of Fulfilled v \<Rightarrow> callback v results | Rejected e \<Rightarrow> results)"

definition sendAlert ::
  "Config \<Rightarrow> AlertService \<Rightarrow> Transports \<Rightarrow> AlertPayload \<Rightarrow> AlertResults" where
  "sendAlert cfg svc tr payload =
     (let results = \<lparr>ar_telegram = None, ar_discord = None, ar_twitter = None\<rparr>;
          results = (if telegram_enabled cfg
                     then on_fulfilled (sendTelegramAlert cfg svc tr payload)
                            (\<lambda>msgId r. r\<lparr>ar_telegram := msgId\<rparr>) results
                     else results);
          results = (if discord_enabled cfg
                     then on_fulfilled (sendDiscordAlert cfg tr payload)
                            (\<lambda>msgId r. r\<lparr>ar_discord := msgId\<rparr>) results
                     else results);
          results = (if twitter_enabled cfg
                     then on_fulfilled (sendTwitterAlert svc payload)
                            (\<lambda>msgId r. r\<lparr>ar_twitter := msgId\<rparr>) results
                     else results)
      in results)"

section \<open>services/monitor.service.ts: the monitor\<close>

record MonitorResult =
  relationsChecked :: nat
  reviewsFound :: nat
  newNegative :: nat
  alertsSent :: nat
  errors :: "string list"
  duration :: int

text \<open>
  What a cycle sees of the world outside the store: the configuration, the network, the
  dispatcher with its transports, the runtime, the clock when the cycle starts (read as
  one instant while the cycle runs) and when it ends, the draw of \<open>Math.random()\<close>, and
  the fault of the log write when it fails.
\<close>

record Env =
  cfg :: Config
  api :: EthosApi
  alert_service :: AlertService
  transports :: Transports
  rt :: runtime
  clock :: int
  clock_end :: int
  random :: real
  log_fault :: "string option"

text \<open>
  A block of statements ends normally or with an exception; either way the store and the
  running result are as the statements before left them.
\<close>

datatype 's completion = Normal 's | Abrupt string 's

fun type_name :: "ActivityType \<Rightarrow> string" where
  "type_name review = ''review''"
| "type_name slash = ''slash''"
| "type_name vouch = ''vouch''"
| "type_name unvouch = ''unvouch''"
| "type_name attestation = ''attestation''"
| "type_name vote = ''vote''"
| "type_name reply = ''reply''"

fun js_String :: "js_prim \<Rightarrow> string" where
  "js_String (Num n) = string_of_int n"
| "js_String (Str s) = s"

text \<open>
  The id that the source gives the activity, \<open>activity.data?.id || activity.id\<close>, when
  one of them is truthy.
\<close>

definition source_id :: "EthosActivity \<Rightarrow> string option" where
  "source_id a =
     (case (case data_field d_id a of Some i \<Rightarrow> if truthy i then Some (js_String i) else None
            | None \<Rightarrow> None) of
        Some s \<Rightarrow> Some s
      | None \<Rightarrow> (case a_id a of Some s \<Rightarrow> if s \<noteq> [] then Some s else None | None \<Rightarrow> None))"

definition activity_id :: "int \<Rightarrow> EthosActivity \<Rightarrow> string" where
  "activity_id now a =
     (case source_id a of
        Some s \<Rightarrow> s
      | None \<Rightarrow> type_name (a_type a) @ ''_'' @ string_of_int now)"

definition normalize_score :: "EthosActivity \<Rightarrow> int" where
  "normalize_score a =
     (case data_field d_score a of
        Some (Str s) \<Rightarrow> if s = ''negative'' then - 1 else if s = ''positive'' then 1 else 0
      | Some (Num n) \<Rightarrow> n
      | None \<Rightarrow> 0)"

definition build_payload ::
  "Env \<Rightarrow> EthosActivity \<Rightarrow> string \<Rightarrow> Relation \<Rightarrow> Review \<Rightarrow> int
     \<Rightarrow> int \<times> string option \<Rightarrow> AlertPayload" where
  "build_payload env activity relationId relation rv score defense =
     \<lparr>ap_type = (if a_type activity = slash then SLASH else NEGATIVE_REVIEW),
      ap_target = \<lparr>tg_name = rel_name relation, tg_address = rel_address relation,
                   tg_profileUrl = getProfileUrl (rel_address relation),
                   tg_profileId = parseInt relationId\<rparr>,
      ap_attacker = \<lparr>at_name = or_else (au_name (a_author activity))
                                 (au_username (a_author activity)),
                     at_address = au_primaryAddress (a_author activity),
                     at_profileId = au_profileId (a_author activity)\<rparr>,
      ap_score = score,
      ap_comment = or_else (data_field d_comment activity) None,
      ap_timestamp = clock env,
      ap_reviewId = rv_id rv,
      ap_relationId = relationId,
      ap_autoDefense =
        (if autoDefense_enabled (cfg env)
         then Some \<lparr>ad_enabled = True,
                    ad_requireConfirm = autoDefense_requireConfirm (cfg env),
                    ad_suggestedScore = fst defense, ad_suggestedComment = snd defense\<rparr>
         else None)\<rparr>"

text \<open>
  The rows stored after the dispatch: one for Telegram and one for Discord, each when its
  entry of the results is truthy.
\<close>

definition store_alerts ::
  "AlertResults \<Rightarrow> AlertPayload \<Rightarrow> string \<Rightarrow> string \<Rightarrow> Store \<times> MonitorResult
     \<Rightarrow> Store \<times> MonitorResult" where
  "store_alerts alertResults payload reviewId relationId sr =
     (let ty = (if ap_type payload = SLASH then SLASH else NEGATIVE_REVIEW);
          sr1 = (if present (ar_telegram alertResults)
                 then (createAlert reviewId relationId ty TELEGRAM (ar_telegram alertResults)
                         (fst sr),
                       (snd sr)\<lparr>alertsSent := alertsSent (snd sr) + 1\<rparr>)
                 else sr);
          sr2 = (if present (ar_discord alertResults)
                 then (createAlert reviewId relationId ty DISCORD (ar_discord alertResults)
                         (fst sr1),
                       (snd sr1)\<lparr>alertsSent := alertsSent (snd sr1) + 1\<rparr>)
                 else sr1)
      in sr2)"

text \<open>
  \<open>processActivity\<close>, in three parts: the row it asks the store to create, the block
  under \<open>if (isNegative)\<close>, and the function itself. A defense without a comment (the
  message of the template was \<open>undefined\<close>) is refused by the storage layer, whose
  \<open>comment\<close> column is required. The first statement reads \<open>activity.data\<close>: on an
  activity that is \<open>null\<close> it throws a \<open>TypeError\<close>, before anything is stored or
  counted.
\<close>

definition null_activity_error :: string where
  "null_activity_error = ''TypeError: Cannot read properties of null (reading 'data')''"

definition review_data :: "Env \<Rightarrow> EthosActivity \<Rightarrow> string \<Rightarrow> string \<Rightarrow> int \<Rightarrow> ReviewData" where
  "review_data env activity relationId activityId score =
     \<lparr>rd_id = type_name (a_type activity) @ ''_'' @ activityId,
      rd_relationId = relationId,
      rd_authorKey = profileIdToUserkey (au_profileId (a_author activity)),
      rd_authorName = or_else (au_name (a_author activity)) (au_username (a_author activity)),
      rd_authorAddr = Some (au_primaryAddress (a_author activity)),
      rd_score = score,
      rd_comment = or_else (data_field d_comment activity) None,
      rd_activityId = Some activityId,
      rd_createdAt = parseActivityTimestamp (rt env) (clock env) activity\<rparr>"

text \<open>The dispatch of the alert of a negative activity: the payload is built and sent.\<close>

definition dispatch ::
  "Env \<Rightarrow> EthosActivity \<Rightarrow> string \<Rightarrow> Relation \<Rightarrow> Review \<Rightarrow> int \<Rightarrow> AlertResults" where
  "dispatch env activity relationId relation rv score =
     sendAlert (cfg env) (alert_service env) (transports env)
       (build_payload env activity relationId relation rv score
          (getRandomDefenseMessage (random env) (autoDefense_defaultScore (cfg env))))"

definition alert_negative ::
  "Env \<Rightarrow> EthosActivity \<Rightarrow> string \<Rightarrow> Review \<Rightarrow> int \<Rightarrow> Store \<times> MonitorResult
     \<Rightarrow> (Store \<times> MonitorResult) completion" where
  "alert_negative env activity relationId rv score sr =
     (let st1 = fst sr;
          res1 = (snd sr)\<lparr>newNegative := newNegative (snd sr) + 1\<rparr>
      in case getRelationById relationId st1 of
           None \<Rightarrow> Normal (st1, res1)
         | Some relation \<Rightarrow>
             (let defense = getRandomDefenseMessage (random env)
                              (autoDefense_defaultScore (cfg env));
                  payload = build_payload env activity relationId relation rv score defense;
                  alertResults = dispatch env activity relationId relation rv score;
                  sr2 = store_alerts alertResults payload (rv_id rv) relationId (st1, res1)
              in case (if autoDefense_enabled (cfg env) then
                         (case snd defense of
                            None \<Rightarrow> Throws ''Argument comment is missing''
                          | Some message \<Rightarrow>
                              Returns (createDefense (rv_id rv) (rel_userkey relation)
                                         (fst defense) message PENDING (fst sr2)))
                       else Returns (fst sr2)) of
                   Throws e \<Rightarrow> Abrupt e sr2
                 | Returns st3 \<Rightarrow>
                     (case markReviewAlerted (rv_id rv) st3 of
                        Throws e \<Rightarrow> Abrupt e (st3, snd sr2)
                      | Returns st4 \<Rightarrow> Normal (st4, snd sr2))))"

definition processActivity ::
  "Env \<Rightarrow> EthosActivity option \<Rightarrow> string \<Rightarrow> Store \<times> MonitorResult
     \<Rightarrow> (Store \<times> MonitorResult) completion" where
  "processActivity env received relationId sr =
     (case received of
        None \<Rightarrow> Abrupt null_activity_error sr
      | Some activity \<Rightarrow>
          (let activityId = activity_id (clock env) activity
           in if reviewExists activityId (fst sr) then Normal sr
              else
                (let score = normalize_score activity;
                     isNegative = (score < 0 \<or> a_type activity = slash)
                 in case createReview (review_data env activity relationId activityId score)
                           (fst sr) of
                      Throws e \<Rightarrow> Abrupt e sr
                    | Returns created \<Rightarrow>
                        if isNegative
                        then alert_negative env activity relationId (fst created) score
                               (snd created, snd sr)
                        else Normal (snd created, snd sr))))"

fun state_of :: "'s completion \<Rightarrow> 's" where
  "state_of (Normal s) = s"
| "state_of (Abrupt e s) = s"

text \<open>The reviews of the store, whatever their \<open>alerted\<close> flags.\<close>

definition review_facts :: "Store \<Rightarrow> Review list" where
  "review_facts st = map (\<lambda>r. r\<lparr>rv_alerted := False\<rparr>) (reviews st)"

text \<open>
  The alert rows that a dispatch leaves in the store, by channel, message id and review.
\<close>

definition channel_rows :: "AlertResults \<Rightarrow> string \<Rightarrow> (AlertChannel \<times> string option \<times> string) list" where
  "channel_rows d reviewId =
     (if present (ar_telegram d) then [(TELEGRAM, ar_telegram d, reviewId)] else [])
     @ (if present (ar_discord d) then [(DISCORD, ar_discord d, reviewId)] else [])"

definition alert_row :: "Alert \<Rightarrow> AlertChannel \<times> string option \<times> string" where
  "alert_row a = (al_channel a, al_messageId a, al_reviewId a)"

fun process_activities ::
  "Env \<Rightarrow> string \<Rightarrow> EthosActivity option list \<Rightarrow> Store \<times> MonitorResult
     \<Rightarrow> (Store \<times> MonitorResult) completion" where
  "process_activities env relationId [] sr = Normal sr"
| "process_activities env relationId (activity # rest) sr =
     (case processActivity env activity relationId sr of
        Normal sr' \<Rightarrow> process_activities env relationId rest sr'
      | Abrupt e sr' \<Rightarrow> Abrupt e sr')"

text \<open>
  The profile data of a relation: from the \<open>subjectUser\<close> of the vouch when it is there,
  the address being its primary address or else the first of its userkeys that starts
  with \<open>address:\<close>.
\<close>

record ProfileData =
  pd_name :: "string option"
  pd_address :: "string option"
  pd_avatar :: "string option"

definition embedded_profile :: "EthosVouch \<Rightarrow> ProfileData" where
  "embedded_profile v =
     (case v_subjectUser v of
        None \<Rightarrow> \<lparr>pd_name = None, pd_address = None, pd_avatar = None\<rparr>
      | Some u \<Rightarrow>
          (let addressKey = (case su_userkeys u of
                               None \<Rightarrow> None
                             | Some ks \<Rightarrow> find (\<lambda>k. startsWith k ''address:'') ks)
           in \<lparr>pd_name = or_else (su_displayName u) (su_username u),
               pd_address = or_else (su_primaryAddress u)
                              (map_option (replace_first ''address:'' []) addressKey),
               pd_avatar = su_avatarUrl u\<rparr>))"

text \<open>
  The profile that the loop settles on: the embedded one when it has an address, else the
  one that \<open>getProfile\<close> returns (\<open>None\<close> when it returns \<open>null\<close>), which may throw.
\<close>

definition resolve_profile :: "EthosApi \<Rightarrow> EthosVouch \<Rightarrow> ProfileData option outcome" where
  "resolve_profile net v =
     (let embedded = embedded_profile v
      in if present (pd_address embedded) then Returns (Some embedded)
         else
           (case getProfile net (profileIdToUserkey (v_subjectProfileId v)) of
              Throws e \<Rightarrow> Throws e
            | Returns None \<Rightarrow> Returns None
            | Returns (Some profile) \<Rightarrow>
                Returns (Some \<lparr>pd_name = or_else (pf_name profile) (pf_username profile),
                               pd_address = Some (pf_primaryAddress profile),
                               pd_avatar = pf_avatar profile\<rparr>)))"

text \<open>The body of the loop over the relations, inside its \<open>try\<close>.\<close>

definition process_vouch ::
  "Env \<Rightarrow> EthosVouch \<Rightarrow> Store \<times> MonitorResult \<Rightarrow> (Store \<times> MonitorResult) completion" where
  "process_vouch env v sr =
     (let relationUserkey = profileIdToUserkey (v_subjectProfileId v);
          res1 = (snd sr)\<lparr>relationsChecked := relationsChecked (snd sr) + 1\<rparr>
      in case resolve_profile (api env) v of
           Throws e \<Rightarrow> Abrupt e (fst sr, res1)
         | Returns None \<Rightarrow> Normal (fst sr, res1)
         | Returns (Some profileData) \<Rightarrow>
             if \<not> present (pd_address profileData) then Normal (fst sr, res1)
             else
               (let st1 = upsertRelation (string_of_int (v_id v)) relationUserkey
                            (pd_name profileData)
                            (case pd_address profileData of Some address \<Rightarrow> address | None \<Rightarrow> [])
                            (pd_avatar profileData) (fst sr);
                    activities = getReceivedActivities (api env) relationUserkey;
                    res2 = res1\<lparr>reviewsFound := reviewsFound res1 + length activities\<rparr>
                in process_activities env (string_of_int (v_id v)) activities (st1, res2)))"

fun process_vouches ::
  "Env \<Rightarrow> EthosVouch list \<Rightarrow> Store \<times> MonitorResult \<Rightarrow> Store \<times> MonitorResult" where
  "process_vouches env [] sr = sr"
| "process_vouches env (v # rest) sr =
     (case process_vouch env v sr of
        Normal sr' \<Rightarrow> process_vouches env rest sr'
      | Abrupt e sr' \<Rightarrow>
          process_vouches env rest
            (fst sr',
             (snd sr')\<lparr>errors := errors (snd sr') @
                [''Error processing relation '' @ string_of_int (v_subjectProfileId v)
                   @ '': '' @ e]\<rparr>))"

text \<open>
  The activities that a cycle takes in for a relation: those received by it, when its
  profile resolves to an address.
\<close>

definition relation_activities :: "EthosApi \<Rightarrow> EthosVouch \<Rightarrow> EthosActivity option list" where
  "relation_activities net v =
     (case resolve_profile net v of
        Returns (Some profileData) \<Rightarrow>
          if present (pd_address profileData)
          then getReceivedActivities net (profileIdToUserkey (v_subjectProfileId v))
          else []
      | Returns None \<Rightarrow> []
      | Throws e \<Rightarrow> [])"


text \<open>
  The reviews as \<open>processActivity\<close> leaves them: no two have the same activity id, and
  the id of each is the name of a type, an underscore and its activity id.
\<close>

definition all_types :: "ActivityType list" where
  "all_types = [review, slash, vouch, unvouch, attestation, vote, reply]"

definition well_keyed :: "Review \<Rightarrow> bool" where
  "well_keyed r =
     (case rv_activityId r of
        Some aid \<Rightarrow> list_ex (\<lambda>ty. rv_id r = type_name ty @ ''_'' @ aid) all_types
      | None \<Rightarrow> False)"

definition store_ok :: "Store \<Rightarrow> bool" where
  "store_ok st = (distinct (map rv_activityId (reviews st)) \<and> list_all well_keyed (reviews st))"

text \<open>The number of reviews of the store with a given activity id.\<close>

definition records_of :: "string \<Rightarrow> Store \<Rightarrow> nat" where
  "records_of activityId st =
     length (filter (\<lambda>r. rv_activityId r = Some activityId) (reviews st))"

fun join :: "string \<Rightarrow> string list \<Rightarrow> string" where
  "join sep [] = []"
| "join sep [x] = x"
| "join sep (x # y # ys) = x @ sep @ join sep (y # ys)"

text \<open>
  The state of the process: the store, the guard and the last run of the monitor, the
  credential, and the review submissions that have reached the network.
\<close>

record World =
  store :: Store
  isRunning :: bool
  lastRunAt :: "int option"
  credential :: TokenService
  sent :: "(string \<times> int \<times> string) list"

definition skipped_result :: MonitorResult where
  "skipped_result =
     \<lparr>relationsChecked = 0, reviewsFound = 0, newNegative = 0, alertsSent = 0,
      errors = [''Cycle already running''], duration = 0\<rparr>"

definition empty_result :: MonitorResult where
  "empty_result =
     \<lparr>relationsChecked = 0, reviewsFound = 0, newNegative = 0, alertsSent = 0,
      errors = [], duration = 0\<rparr>"

text \<open>
  \<open>runMonitorCycle\<close> in two parts. The test of the guard and its setting run without an
  \<open>await\<close> between them: \<open>cycle_enter\<close> is one step. \<open>cycle_run\<close> is the rest, the \<open>try\<close>
  with its \<open>catch\<close> and the \<open>finally\<close> that clears the guard.
\<close>

datatype admission = Skipped MonitorResult | Entered World

definition cycle_enter :: "World \<Rightarrow> admission" where
  "cycle_enter w = (if isRunning w then Skipped skipped_result
                    else Entered (w\<lparr>isRunning := True\<rparr>))"

definition cycle_run :: "Env \<Rightarrow> World \<Rightarrow> MonitorResult \<times> World" where
  "cycle_run env w =
     (let vouches = getVouches (api env) (userKey (cfg env));
          sr = process_vouches env vouches (store w, empty_result);
          res = (snd sr)\<lparr>duration := clock_end env - clock env\<rparr>;
          w1 = w\<lparr>store := fst sr, lastRunAt := Some (clock_end env)\<rparr>;
          row = \<lparr>ml_relationsChecked = relationsChecked res, ml_reviewsFound = reviewsFound res,
                 ml_newNegative = newNegative res, ml_alertsSent = alertsSent res,
                 ml_errors = (if errors res \<noteq> [] then Some (join ''; '' (errors res)) else None),
                 ml_duration = duration res\<rparr>
      in case logMonitorRun (log_fault env) row (store w1) of
           Returns st \<Rightarrow> (res, w1\<lparr>store := st, isRunning := False\<rparr>)
         | Throws e \<Rightarrow>
             (res\<lparr>errors := errors res @ [''Cycle failed: '' @ e]\<rparr>, w1\<lparr>isRunning := False\<rparr>))"

definition runMonitorCycle :: "Env \<Rightarrow> World \<Rightarrow> MonitorResult \<times> World" where
  "runMonitorCycle env w =
     (case cycle_enter w of
        Skipped res \<Rightarrow> (res, w)
      | Entered w' \<Rightarrow> cycle_run env w')"

text \<open>
  \<open>executeDefense\<close>: the whole body is one \<open>try\<close> whose \<open>catch\<close> returns \<open>false\<close>; the
  writes made before an exception stay.
\<close>

definition executeDefense :: "EthosApi \<Rightarrow> string \<Rightarrow> string \<Rightarrow> World \<Rightarrow> bool \<times> World" where
  "executeDefense net alertId reviewId w =
     (case getAlertById alertId (store w) of
        None \<Rightarrow> (False, w)
      | Some alert \<Rightarrow>
          (case getPendingDefense reviewId (store w) of
             None \<Rightarrow> (False, w)
           | Some pendingDefense \<Rightarrow>
               (case updateDefenseStatus (df_id pendingDefense) CONFIRMED None None None
                       (store w) of
                  Throws e \<Rightarrow> (False, w)
                | Returns st1 \<Rightarrow>
                    (let posted = postReview net (df_targetKey pendingDefense)
                                    (df_score pendingDefense) (df_comment pendingDefense) (sent w);
                         result = fst posted;
                         w1 = w\<lparr>store := st1, sent := snd posted\<rparr>
                     in if pr_success result then
                          (case updateDefenseStatus (df_id pendingDefense) POSTED
                                  (pr_reviewId result) (pr_txHash result) None st1 of
                             Throws e \<Rightarrow> (False, w1)
                           | Returns st2 \<Rightarrow>
                               (case updateAlertStatus alertId ALERT_CONFIRMED st2 of
                                  Throws e \<Rightarrow> (False, w1\<lparr>store := st2\<rparr>)
                                | Returns st3 \<Rightarrow> (True, w1\<lparr>store := st3\<rparr>)))
                        else
                          (case updateDefenseStatus (df_id pendingDefense) FAILED None None
                                  (pr_error result) st1 of
                             Throws e \<Rightarrow> (False, w1)
                           | Returns st2 \<Rightarrow> (False, w1\<lparr>store := st2\<rparr>))))))"

definition postCustomDefense ::
  "EthosApi \<Rightarrow> string \<Rightarrow> int \<Rightarrow> string \<Rightarrow> string option \<Rightarrow> World \<Rightarrow> PostResult \<times> World" where
  "postCustomDefense net targetUserkey score comment reviewId w =
     (let posted = postReview net targetUserkey score comment (sent w);
          result = fst posted;
          w1 = w\<lparr>sent := snd posted\<rparr>
      in if pr_success result \<and> present reviewId then
           (case getPendingDefense (case reviewId of Some r \<Rightarrow> r | None \<Rightarrow> []) (store w1) of
              None \<Rightarrow> (result, w1)
            | Some defense \<Rightarrow>
                (case updateDefenseStatus (df_id defense) POSTED (pr_reviewId result)
                        (pr_txHash result) None (store w1) of
                   Throws e \<Rightarrow>
                     (\<lparr>pr_success = False, pr_reviewId = None, pr_txHash = None,
                       pr_error = Some e\<rparr>, w1)
                 | Returns st \<Rightarrow> (result, w1\<lparr>store := st\<rparr>)))
         else (result, w1))"

text \<open>
  Triggers and running cycles interleave at the \<open>await\<close>s of a running cycle. An event is
  a trigger of \<open>runMonitorCycle\<close> (by the timer or by hand), or the completion of a cycle
  in flight. A trigger that is admitted joins the cycles in flight; one that is not
  returns its result at once.
\<close>

datatype event = Trigger Env | Complete

record Scheduler =
  world :: World
  in_flight :: "Env list"
  returned :: "MonitorResult list"

definition step :: "Scheduler \<Rightarrow> event \<Rightarrow> Scheduler" where
  "step s ev =
     (case ev of
        Trigger env \<Rightarrow>
          (case cycle_enter (world s) of
             Skipped res \<Rightarrow> s\<lparr>returned := returned s @ [res]\<rparr>
           | Entered w' \<Rightarrow> s\<lparr>world := w', in_flight := in_flight s @ [env]\<rparr>)
      | Complete \<Rightarrow>
          (case in_flight s of
             [] \<Rightarrow> s
           | env # rest \<Rightarrow>
               (let done = cycle_run env (world s)
                in s\<lparr>world := snd done, in_flight := rest,
                     returned := returned s @ [fst done]\<rparr>)))"

definition run_events :: "Scheduler \<Rightarrow> event list \<Rightarrow> Scheduler" where
  "run_events s evs = foldl step s evs"

section \<open>Concrete inputs\<close>

definition plain_runtime :: runtime where
  "plain_runtime =
     \<lparr>date_parse = (\<lambda>s. if s = ''2024-01-01T00:00:00.000Z'' then Some 1704067200000 else None),
      to_number = (\<lambda>s. if s = ''1700000000'' then Some 1700000000 else None)\<rparr>"

definition anon_author :: ActivityAuthor where
  "anon_author =
     \<lparr>au_profileId = 7, au_name = None, au_username = Some ''mallory'', au_avatar = None,
      au_primaryAddress = ''0xabc''\<rparr>"

definition zero_timestamp_activity :: EthosActivity where
  "zero_timestamp_activity =
     \<lparr>a_id = None, a_type = review, a_data = None,
      a_createdAt = Some ''2024-01-01T00:00:00.000Z'', a_timestamp = Some 0,
      a_author = anon_author\<rparr>"

definition seconds_activity :: EthosActivity where
  "seconds_activity =
     \<lparr>a_id = None, a_type = review, a_data = None,
      a_createdAt = Some ''2024-01-01T00:00:00.000Z'', a_timestamp = Some 1700000000,
      a_author = anon_author\<rparr>"

definition fresh_payload :: PrivyTokenPayload where
  "fresh_payload =
     \<lparr>p_sid = ''s1'', p_iss = ''privy.io'', p_iat = 1700000000, p_aud = ''app'',
      p_sub = ''did:privy:1'', p_exp = 1700086400\<rparr>"

definition stale_payload :: PrivyTokenPayload where
  "stale_payload =
     \<lparr>p_sid = ''s0'', p_iss = ''privy.io'', p_iat = 1699000000, p_aud = ''app'',
      p_sub = ''did:privy:1'', p_exp = 1699086400\<rparr>"

definition demo_jwt :: "string \<Rightarrow> PrivyTokenPayload option outcome" where
  "demo_jwt token =
     (if token = ''fresh.jwt'' then Returns (Some fresh_payload)
      else if token = ''stale.jwt'' then Returns (Some stale_payload)
      else Returns None)"

definition fresh_service :: TokenService where
  "fresh_service = \<lparr>currentToken = Some ''fresh.jwt'', tokenPayload = Some fresh_payload\<rparr>"

text \<open>
  The activity with every falsy field that \<open>parseActivityTimestamp\<close> passes over taken
  out: a zero timestamp, an empty \<open>createdAt\<close>, a zero or empty \<open>data.createdAt\<close>.
\<close>

definition drop_falsy :: "EthosActivity \<Rightarrow> EthosActivity" where
  "drop_falsy a =
     a\<lparr>a_timestamp := (if a_timestamp a = Some 0 then None else a_timestamp a),
       a_createdAt := (if a_createdAt a = Some [] then None else a_createdAt a),
       a_data := map_option
          (\<lambda>d. d\<lparr>d_createdAt := (case d_createdAt d of
                                    Some c \<Rightarrow> if truthy c then Some c else None
                                  | None \<Rightarrow> None)\<rparr>) (a_data a)\<rparr>"

definition demo_config :: Config where
  "demo_config =
     \<lparr>userKey = ''profileId:1'', telegram_enabled = True, telegram_chatId = Some ''chat-1'',
      discord_enabled = True, discord_webhookUrl = Some ''https://discord.test/hook'',
      twitter_enabled = True, autoDefense_enabled = True, autoDefense_requireConfirm = True,
      autoDefense_defaultScore = 3\<rparr>"

definition demo_service :: AlertService where
  "demo_service = \<lparr>telegramBot = True, twitterClient = True\<rparr>"

definition demo_transports :: Transports where
  "demo_transports =
     \<lparr>telegram_send = (\<lambda>p. Returns 41), discord_post = (\<lambda>p. Returns (Some ''d-77''))\<rparr>"

definition quiet_api :: EthosApi where
  "quiet_api =
     \<lparr>wallet_http = (\<lambda>k. Failed None ''offline''),
      profiles_http = (\<lambda>k. Failed None ''offline''),
      vouches_http = (\<lambda>k. Failed None ''offline''),
      activities_http = (\<lambda>k. Failed None ''offline''),
      reviews_http = (\<lambda>k s c. Failed None ''offline'')\<rparr>"

definition demo_env :: Env where
  "demo_env =
     \<lparr>cfg = demo_config, api = quiet_api, alert_service = demo_service,
      transports = demo_transports, rt = plain_runtime, clock = 1700000000000,
      clock_end = 1700000001500, random = 1 / 2, log_fault = None\<rparr>"

definition demo_relation :: Relation where
  "demo_relation =
     \<lparr>rel_id = ''12'', rel_userkey = ''profileId:12'', rel_name = Some ''alice'',
      rel_address = ''0xa11ce'', rel_avatarUrl = None, rel_score = 0\<rparr>"

definition demo_store :: Store where
  "demo_store =
     \<lparr>relations = [demo_relation], reviews = [], alerts = [], defenses = [],
      monitorLogs = []\<rparr>"

definition slash_positive :: EthosActivity where
  "slash_positive =
     \<lparr>a_id = None, a_type = slash,
      a_data = Some \<lparr>d_id = Some (Num 9001), d_score = Some (Str ''positive''),
                     d_comment = Some ''penalty'', d_createdAt = None\<rparr>,
      a_createdAt = None, a_timestamp = Some 1700000000, a_author = anon_author\<rparr>"

definition demo_payload :: AlertPayload where
  "demo_payload =
     \<lparr>ap_type = SLASH,
      ap_target = \<lparr>tg_name = Some ''alice'', tg_address = ''0xa11ce'',
                   tg_profileUrl = ''https://app.ethos.network/profile/0xa11ce'',
                   tg_profileId = Some 12\<rparr>,
      ap_attacker = \<lparr>at_name = Some ''mallory'', at_address = ''0xabc'', at_profileId = 7\<rparr>,
      ap_score = 1, ap_comment = Some ''penalty'', ap_timestamp = 1700000000000,
      ap_reviewId = ''slash_9001'', ap_relationId = ''12'', ap_autoDefense = None\<rparr>"

definition telegram_down :: Transports where
  "telegram_down =
     \<lparr>telegram_send = (\<lambda>p. Throws ''ETIMEDOUT''),
      discord_post = (\<lambda>p. Returns (Some ''d-77''))\<rparr>"

definition demo_review :: Review where
  "demo_review =
     \<lparr>rv_id = ''slash_9001'', rv_relationId = ''12'', rv_authorKey = ''profileId:7'',
      rv_authorName = Some ''mallory'', rv_authorAddr = Some ''0xabc'', rv_score = 1,
      rv_comment = Some ''penalty'', rv_activityId = Some ''9001'', rv_isNegative = False,
      rv_alerted = False, rv_createdAt = 1700000000000\<rparr>"

definition stale_service :: TokenService where
  "stale_service = \<lparr>currentToken = Some ''stale.jwt'', tokenPayload = Some stale_payload\<rparr>"

definition rejecting_api :: EthosApi where
  "rejecting_api =
     quiet_api\<lparr>reviews_http := (\<lambda>k s c. Failed (Some 401) ''Unauthorized'')\<rparr>"

definition pending_defense :: Defense where
  "pending_defense =
     \<lparr>df_id = ''defense_0'', df_reviewId = ''slash_9001'', df_targetKey = ''profileId:12'',
      df_score = 3, df_comment = ''Good standing member of the community.'',
      df_status = PENDING, df_ethosReviewId = None, df_txHash = None, df_error = None\<rparr>"

definition pending_alert :: Alert where
  "pending_alert =
     \<lparr>al_id = ''alert_0'', al_reviewId = ''slash_9001'', al_relationId = ''12'',
      al_type = SLASH, al_channel = TELEGRAM, al_messageId = Some ''41'',
      al_status = ALERT_PENDING\<rparr>"

definition expired_world :: World where
  "expired_world =
     \<lparr>store = \<lparr>relations = [demo_relation], reviews = [demo_review],
               alerts = [pending_alert], defenses = [pending_defense], monitorLogs = []\<rparr>,
      isRunning = False, lastRunAt = None, credential = stale_service, sent = []\<rparr>"

text \<open>
  The guard agrees with the cycles in flight: at most one, and the guard is set exactly
  when there is one.
\<close>

definition guard_ok :: "Scheduler \<Rightarrow> bool" where
  "guard_ok s = (length (in_flight s) \<le> 1 \<and> (isRunning (world s) = (in_flight s \<noteq> [])))"

definition idle_world :: World where
  "idle_world =
     \<lparr>store = demo_store, isRunning = False, lastRunAt = None, credential = fresh_service,
      sent = []\<rparr>"

definition idle_scheduler :: Scheduler where
  "idle_scheduler = \<lparr>world = idle_world, in_flight = [], returned = []\<rparr>"

definition running_world :: World where
  "running_world = idle_world\<lparr>isRunning := True\<rparr>"

text \<open>A response that lists nothing: an object whose \<open>values\<close> is the empty array.\<close>

definition empty_page :: "'a body" where
  "empty_page = Object (Array []) Missing"



text \<open>
  A network with one relation, whose profile comes with the vouch, and one element in the
  list of the activities received by it.
\<close>

definition tracked_raw :: RawVouch where
  "tracked_raw =
     \<lparr>rw_id = Some 12, rw_authorProfileId = 1, rw_subjectProfileId = 12,
      rw_subjectUser = Some \<lparr>su_profileId = 12, su_displayName = Some ''alice'',
                              su_username = None, su_avatarUrl = None,
                              su_primaryAddress = Some ''0xa11ce'', su_userkeys = None\<rparr>\<rparr>"

definition serving :: "EthosActivity option \<Rightarrow> EthosApi" where
  "serving x =
     quiet_api\<lparr>vouches_http := (\<lambda>p. Ok (Object (Array [Some tracked_raw]) Missing)),
               activities_http := (\<lambda>k. Ok (Object (Array [x]) Missing))\<rparr>"





definition empty_world :: World where
  "empty_world =
     \<lparr>store = \<lparr>relations = [], reviews = [], alerts = [], defenses = [], monitorLogs = []\<rparr>,
      isRunning = False, lastRunAt = None, credential = fresh_service, sent = []\<rparr>"

text \<open>The same network when the list of activities is \<open>[null]\<close>, and when it is empty.\<close>

definition null_env :: Env where
  "null_env = demo_env\<lparr>api := serving None\<rparr>"

definition empty_env :: Env where
  "empty_env =
     demo_env\<lparr>api := (serving None)\<lparr>activities_http := (\<lambda>k. Ok empty_page)\<rparr>\<rparr>"

section \<open>Properties\<close>

subsection \<open>Defense suggestion\<close>

lemma template_scores: "map t_score DEFENSE_TEMPLATES = [3, 2]"
  by (simp add: DEFENSE_TEMPLATES_def)

lemma templates_nonempty: "DEFENSE_TEMPLATES \<noteq> []"
  using template_scores by auto

lemma find_distinct_key:
  "distinct (map f xs) \<Longrightarrow> t \<in> set xs \<Longrightarrow> find (\<lambda>x. f x = f t) xs = Some t"
  by (induction xs) auto

lemma select_template_mem: "select_template score \<in> set DEFENSE_TEMPLATES"
proof (cases "find (\<lambda>t. t_score t = score) DEFENSE_TEMPLATES")
  case None
  then show ?thesis using templates_nonempty by (simp add: select_template_def)
next
  case (Some t)
  then have "t \<in> set DEFENSE_TEMPLATES" by (auto simp: find_Some_iff)
  with Some show ?thesis by (simp add: select_template_def)
qed

lemma select_template_exact:
  assumes "t \<in> set DEFENSE_TEMPLATES" and "t_score t = score"
  shows "select_template score = t"
proof -
  have "distinct (map t_score DEFENSE_TEMPLATES)" by (simp add: template_scores)
  from find_distinct_key [OF this assms(1)] assms(2) show ?thesis
    by (simp add: select_template_def)
qed

lemma select_template_default:
  assumes "\<forall>t \<in> set DEFENSE_TEMPLATES. t_score t \<noteq> score"
  shows "select_template score = hd DEFENSE_TEMPLATES"
proof -
  from assms have "find (\<lambda>t. t_score t = score) DEFENSE_TEMPLATES = None"
    by (simp add: find_None_iff)
  then show ?thesis by (simp add: select_template_def)
qed

lemma template_messages_nonempty:
  "t \<in> set DEFENSE_TEMPLATES \<Longrightarrow> t_messages t \<noteq> []"
proof -
  have "\<forall>t \<in> set DEFENSE_TEMPLATES. t_messages t \<noteq> []"
    by (simp add: DEFENSE_TEMPLATES_def)
  then show "t \<in> set DEFENSE_TEMPLATES \<Longrightarrow> t_messages t \<noteq> []" by blast
qed

lemma select_template_3: "select_template 3 = DEFENSE_TEMPLATES ! 0"
proof -
  have "DEFENSE_TEMPLATES ! 0 \<in> set DEFENSE_TEMPLATES"
    using templates_nonempty by simp
  moreover have "t_score (DEFENSE_TEMPLATES ! 0) = 3"
    using template_scores by (metis length_greater_0_conv nth_Cons_0 nth_map templates_nonempty)
  ultimately show ?thesis by (rule select_template_exact)
qed

lemma random_index_in_range:
  assumes "0 \<le> rnd" "rnd < 1" "xs \<noteq> []"
  shows "\<exists>m. js_index xs \<lfloor>rnd * real (length xs)\<rfloor> = Some m \<and> m \<in> set xs"
proof -
  let ?n = "length xs"
  have n: "0 < real ?n" using assms(3) by simp
  have lo: "0 \<le> \<lfloor>rnd * real ?n\<rfloor>" using assms(1) by simp
  have "rnd * real ?n < real ?n" using assms(2) n by simp
  then have hi: "\<lfloor>rnd * real ?n\<rfloor> < int ?n" by (simp add: floor_less_iff)
  from lo hi have "nat \<lfloor>rnd * real ?n\<rfloor> < ?n" by linarith
  then have "xs ! nat \<lfloor>rnd * real ?n\<rfloor> \<in> set xs" by simp
  with lo hi show ?thesis by (simp add: js_index_def)
qed

text \<open>
  C9. For every requested score and every draw \<open>rnd\<close> in \<open>[0, 1)\<close>, the suggestion's score
  is the canonical score of the selected bucket and its message is one of that bucket's
  messages. The selected bucket is the one whose score is the requested score, or the
  default (first) bucket when no bucket has that score. A request for 3 returns score 3 and
  a message of bucket 3.
\<close>

theorem suggestDefense_bucket:
  assumes "0 \<le> rnd" and "rnd < 1"
  shows "(\<exists>m. getRandomDefenseMessage rnd score = (t_score (select_template score), Some m)
             \<and> m \<in> set (t_messages (select_template score)))
    \<and> select_template score \<in> set DEFENSE_TEMPLATES
    \<and> (\<forall>t \<in> set DEFENSE_TEMPLATES. t_score t = score \<longrightarrow> select_template score = t)
    \<and> ((\<forall>t \<in> set DEFENSE_TEMPLATES. t_score t \<noteq> score) \<longrightarrow>
           select_template score = hd DEFENSE_TEMPLATES)
    \<and> (\<exists>m. getRandomDefenseMessage rnd 3 = (3, Some m)
             \<and> m \<in> set (t_messages (DEFENSE_TEMPLATES ! 0))
             \<and> t_score (DEFENSE_TEMPLATES ! 0) = 3)"
proof -
  have ne: "t_messages (select_template s) \<noteq> []" for s
    using select_template_mem template_messages_nonempty by blast
  have g: "\<exists>m. getRandomDefenseMessage rnd s = (t_score (select_template s), Some m)
             \<and> m \<in> set (t_messages (select_template s))" for s
    using random_index_in_range [OF assms ne [of s]]
    by (auto simp: getRandomDefenseMessage_def Let_def)
  have m: "select_template score \<in> set DEFENSE_TEMPLATES" by (rule select_template_mem)
  have e: "\<forall>t \<in> set DEFENSE_TEMPLATES. t_score t = score \<longrightarrow> select_template score = t"
    using select_template_exact by blast
  have d: "(\<forall>t \<in> set DEFENSE_TEMPLATES. t_score t \<noteq> score) \<longrightarrow>
           select_template score = hd DEFENSE_TEMPLATES"
    using select_template_default by blast
  have t3: "t_score (DEFENSE_TEMPLATES ! 0) = 3"
    using template_scores by (metis length_greater_0_conv nth_Cons_0 nth_map templates_nonempty)
  from g [of 3] t3 have g3: "\<exists>m. getRandomDefenseMessage rnd 3 = (3, Some m)
             \<and> m \<in> set (t_messages (DEFENSE_TEMPLATES ! 0))
             \<and> t_score (DEFENSE_TEMPLATES ! 0) = 3"
    by (simp add: select_template_3)
  from g [of score] m e d g3 show ?thesis by blast
qed

theorem suggestDefense_bucket_witness:
  "(0::real) \<le> 1 / 2 \<and> (1::real) / 2 < 1
   \<and> (\<exists>m. getRandomDefenseMessage (1 / 2) 7 = (t_score (select_template 7), Some m)
          \<and> m \<in> set (t_messages (select_template 7)))
   \<and> select_template 7 = hd DEFENSE_TEMPLATES"
proof -
  have a: "(0::real) \<le> 1 / 2" and b: "(1::real) / 2 < 1" by simp_all
  have "\<forall>t \<in> set DEFENSE_TEMPLATES. t_score t \<noteq> 7"
  proof
    fix t assume "t \<in> set DEFENSE_TEMPLATES"
    then have "t_score t \<in> set (map t_score DEFENSE_TEMPLATES)" by simp
    then show "t_score t \<noteq> 7" by (auto simp: template_scores)
  qed
  with suggestDefense_bucket [OF a b, of 7] a b show ?thesis by blast
qed

subsection \<open>Timestamp normalization\<close>

lemma seconds_and_ms_agree: "seconds_to_ms 1700000000 = seconds_to_ms 1700000000000"
  by (simp add: seconds_to_ms_def)

text \<open>
  C8 as stated fails. An activity whose numeric timestamp is 0 is not normalized from its
  timestamp field: the code passes over the zero and takes the ISO \<open>createdAt\<close>, where
  the documented order gives the epoch.
\<close>

theorem timestamp_zero_counterexample:
  "parseActivityTimestamp plain_runtime 1710000000000 zero_timestamp_activity = 1704067200000
   \<and> documented_timestamp plain_runtime 1710000000000 zero_timestamp_activity = 0"
  by (simp add: parseActivityTimestamp_def documented_timestamp_def zero_timestamp_activity_def
      plain_runtime_def seconds_to_ms_def)

text \<open>
  C8, amended. For every activity the creation instant is the documented fallback order
  applied to the activity without its falsy fields (a zero timestamp, an empty
  \<open>createdAt\<close>, a zero or empty \<open>data.createdAt\<close> count as absent): the numeric timestamp
  first, below 10000000000 multiplied by 1000 and taken as milliseconds from there on,
  so that 1700000000 and 1700000000000 give the same instant; then the ISO \<open>createdAt\<close>
  when it parses; then \<open>data.createdAt\<close> under the same rule when it is a number; else
  the ingestion time.
\<close>

theorem parseActivityTimestamp_order:
  "parseActivityTimestamp rtm now a = documented_timestamp rtm now (drop_falsy a)
   \<and> (\<forall>t. a_timestamp a = Some t \<and> t \<noteq> 0 \<longrightarrow>
          parseActivityTimestamp rtm now a = (if t < 10000000000 then t * 1000 else t))
   \<and> parseActivityTimestamp rtm now (a\<lparr>a_timestamp := Some 1700000000\<rparr>)
       = parseActivityTimestamp rtm now (a\<lparr>a_timestamp := Some 1700000000000\<rparr>)
   \<and> (a_timestamp (drop_falsy a) = None \<and> a_createdAt (drop_falsy a) = None
        \<and> data_field d_createdAt (drop_falsy a) = None \<longrightarrow>
          parseActivityTimestamp rtm now a = now)"
  by (auto simp: parseActivityTimestamp_def documented_timestamp_def drop_falsy_def
      data_field_def seconds_to_ms_def split: option.splits)

theorem parseActivityTimestamp_order_witness:
  "parseActivityTimestamp plain_runtime 1710000000000 seconds_activity = 1700000000000
   \<and> parseActivityTimestamp plain_runtime 1710000000000 seconds_activity
       = documented_timestamp plain_runtime 1710000000000 (drop_falsy seconds_activity)"
proof -
  have t: "a_timestamp seconds_activity = Some 1700000000 \<and> (1700000000::int) \<noteq> 0"
    by (simp add: seconds_activity_def)
  from parseActivityTimestamp_order [of plain_runtime 1710000000000 seconds_activity] t
  show ?thesis by simp
qed

subsection \<open>Credential update\<close>

lemma updateToken_undecodable_keeps_state:
  assumes "jwt newToken = Returns None \<or> (\<exists>e. jwt newToken = Throws e)"
  shows "updateToken jwt now_ms newToken (ts, auth)
           = (\<lparr>u_success = False, u_status = getStatus now_ms ts,
               u_error = Some ''Invalid token format''\<rparr>, ts, auth)"
  using assms by (auto simp: updateToken_def decodeToken_def)

text \<open>
  C6 fails on the code. With a valid token in place, \<open>updateToken\<close> of a token that
  decodes and is already expired returns the typed error and keeps the current token, but
  the decoded payload of the service is now the payload of the refused token, since
  \<open>decodeToken\<close> stores what it decodes: the status, which was valid, reports expired.
\<close>

theorem updateToken_expired_replaces_payload:
  "updateToken demo_jwt 1700000000000 ''stale.jwt'' (fresh_service, Some ''Bearer fresh.jwt'')
     = (\<lparr>u_success = False,
         u_status = getStatus 1700000000000 (fresh_service\<lparr>tokenPayload := Some stale_payload\<rparr>),
         u_error = Some ''Token is already expired''\<rparr>,
        fresh_service\<lparr>tokenPayload := Some stale_payload\<rparr>, Some ''Bearer fresh.jwt'')
   \<and> fresh_service\<lparr>tokenPayload := Some stale_payload\<rparr> \<noteq> fresh_service
   \<and> \<not> isExpired (getStatus 1700000000000 fresh_service)
   \<and> isExpired (getStatus 1700000000000 (fresh_service\<lparr>tokenPayload := Some stale_payload\<rparr>))"
proof -
  have d: "decodeToken demo_jwt ''stale.jwt'' fresh_service
             = (Some stale_payload, fresh_service\<lparr>tokenPayload := Some stale_payload\<rparr>)"
    by (simp add: decodeToken_def demo_jwt_def stale_payload_def date_in_range_def Let_def)
  have e: "p_exp stale_payload \<le> 1700000000000 div 1000" by (simp add: stale_payload_def)
  have u: "updateToken demo_jwt 1700000000000 ''stale.jwt''
             (fresh_service, Some ''Bearer fresh.jwt'')
     = (\<lparr>u_success = False,
         u_status = getStatus 1700000000000 (fresh_service\<lparr>tokenPayload := Some stale_payload\<rparr>),
         u_error = Some ''Token is already expired''\<rparr>,
        fresh_service\<lparr>tokenPayload := Some stale_payload\<rparr>, Some ''Bearer fresh.jwt'')"
    using e by (simp add: updateToken_def d Let_def)
  have n: "fresh_service\<lparr>tokenPayload := Some stale_payload\<rparr> \<noteq> fresh_service"
    by (simp add: fresh_service_def fresh_payload_def stale_payload_def)
  have s1: "\<not> isExpired (getStatus 1700000000000 fresh_service)"
    by (simp add: getStatus_def fresh_service_def fresh_payload_def Let_def)
  have s2: "isExpired (getStatus 1700000000000
              (fresh_service\<lparr>tokenPayload := Some stale_payload\<rparr>))"
    by (simp add: getStatus_def fresh_service_def stale_payload_def Let_def)
  from u n s1 s2 show ?thesis by blast
qed

subsection \<open>The store under the operations of the monitor\<close>

lemma createAlert_frame [simp]:
  "reviews (createAlert a b c d e st) = reviews st"
  "relations (createAlert a b c d e st) = relations st"
  "defenses (createAlert a b c d e st) = defenses st"
  "monitorLogs (createAlert a b c d e st) = monitorLogs st"
  by (simp_all add: createAlert_def)

lemma createDefense_frame [simp]:
  "reviews (createDefense a b c d e st) = reviews st"
  "relations (createDefense a b c d e st) = relations st"
  "alerts (createDefense a b c d e st) = alerts st"
  "monitorLogs (createDefense a b c d e st) = monitorLogs st"
  by (simp_all add: createDefense_def)

lemma store_alerts_frame [simp]:
  "reviews (fst (store_alerts ar p rid relid sr)) = reviews (fst sr)"
  "relations (fst (store_alerts ar p rid relid sr)) = relations (fst sr)"
  "defenses (fst (store_alerts ar p rid relid sr)) = defenses (fst sr)"
  "monitorLogs (fst (store_alerts ar p rid relid sr)) = monitorLogs (fst sr)"
  by (simp_all add: store_alerts_def Let_def)

lemma store_alerts_rows:
  "map alert_row (alerts (fst (store_alerts ar p rid relid sr)))
     = map alert_row (alerts (fst sr)) @ channel_rows ar rid"
  by (simp add: store_alerts_def Let_def channel_rows_def createAlert_def alert_row_def)

lemma createReview_Returns:
  assumes "createReview d st = Returns (row, st')"
  shows "reviews st' = reviews st @ [row]" and "rv_id row = rd_id d"
    and "rv_activityId row = rd_activityId d" and "rv_isNegative row = (rd_score d < 0)"
    and "rv_score row = rd_score d" and "rv_alerted row = False"
    and "relations st' = relations st" and "alerts st' = alerts st"
    and "defenses st' = defenses st" and "monitorLogs st' = monitorLogs st"
  using assms by (auto simp: createReview_def Let_def split: if_splits)

lemma markReviewAlerted_Returns:
  assumes "markReviewAlerted ident st = Returns st'"
  shows "reviews st' = map (\<lambda>r. if rv_id r = ident then r\<lparr>rv_alerted := True\<rparr> else r) (reviews st)"
    and "relations st' = relations st" and "alerts st' = alerts st"
    and "defenses st' = defenses st" and "monitorLogs st' = monitorLogs st"
  using assms by (auto simp: markReviewAlerted_def split: if_splits)

lemma review_facts_mark:
  "map (\<lambda>r. r\<lparr>rv_alerted := False\<rparr>)
     (map (\<lambda>r. if rv_id r = ident then r\<lparr>rv_alerted := True\<rparr> else r) xs)
   = map (\<lambda>r. r\<lparr>rv_alerted := False\<rparr>) xs"
  by (induction xs) auto

lemma alert_negative_facts:
  "review_facts (fst (state_of (alert_negative env a rid rv score sr))) = review_facts (fst sr)"
  by (auto simp: alert_negative_def Let_def review_facts_def review_facts_mark
      dest!: markReviewAlerted_Returns(1)
      split: option.splits outcome.splits)

lemma alert_negative_rows:
  assumes "getRelationById rid (fst sr) = Some relation"
  shows "map alert_row (alerts (fst (state_of (alert_negative env a rid rv score sr))))
           = map alert_row (alerts (fst sr)) @ channel_rows (dispatch env a rid relation rv score) (rv_id rv)"
  using assms
  by (auto simp: alert_negative_def Let_def store_alerts_rows
      dest!: markReviewAlerted_Returns(3)
      split: option.splits outcome.splits)

lemma processActivity_null: "processActivity env None rid sr = Abrupt null_activity_error sr"
  by (simp add: processActivity_def)

lemma processActivity_exists:
  "reviewExists (activity_id (clock env) a) (fst sr) \<Longrightarrow> processActivity env (Some a) rid sr = Normal sr"
  by (simp add: processActivity_def)

lemma processActivity_created:
  assumes "\<not> reviewExists (activity_id (clock env) a) (fst sr)"
    and "createReview (review_data env a rid (activity_id (clock env) a) (normalize_score a)) (fst sr)
           = Returns (rv, st1)"
  shows "processActivity env (Some a) rid sr =
           (if normalize_score a < 0 \<or> a_type a = slash
            then alert_negative env a rid rv (normalize_score a) (st1, snd sr)
            else Normal (st1, snd sr))"
  using assms by (simp add: processActivity_def Let_def)

lemma processActivity_facts:
  assumes "\<not> reviewExists (activity_id (clock env) a) (fst sr)"
    and "createReview (review_data env a rid (activity_id (clock env) a) (normalize_score a)) (fst sr)
           = Returns (rv, st1)"
  shows "review_facts (fst (state_of (processActivity env (Some a) rid sr))) = review_facts (fst sr) @ [rv]"
proof -
  have "review_facts st1 = review_facts (fst sr) @ [rv]"
    using createReview_Returns(1,6) [OF assms(2)] by (simp add: review_facts_def)
  then show ?thesis
    by (simp add: processActivity_created [OF assms] alert_negative_facts)
qed


lemma store_alerts_newNegative [simp]:
  "newNegative (snd (store_alerts ar p rid relid sr)) = newNegative (snd sr)"
  by (simp add: store_alerts_def Let_def)

lemma alert_negative_newNegative:
  "newNegative (snd (state_of (alert_negative env a rid rv score sr))) = newNegative (snd sr) + 1"
  by (auto simp: alert_negative_def Let_def split: option.splits outcome.splits)

lemma isNegative_facts: "map rv_isNegative (review_facts st) = map rv_isNegative (reviews st)"
  by (simp add: review_facts_def)

lemma createReview_fresh:
  assumes "reviews st = []"
  shows "\<exists>rv st1. createReview d st = Returns (rv, st1)"
  using assms by (simp add: createReview_def Let_def)

subsection \<open>The stored negativity flag\<close>

lemma slash_positive_score: "normalize_score slash_positive = 1"
  by (simp add: normalize_score_def slash_positive_def data_field_def)

text \<open>
  C2 fails on the code. A slash whose score is \<open>positive\<close> normalizes to 1; the monitor
  treats it as negative (it counts it and alerts), but the row that \<open>createReview\<close> stores
  has the negativity flag of the score alone, \<open>score < 0\<close>, which is false.
\<close>

theorem slash_positive_stored_not_negative:
  "a_type slash_positive = slash
   \<and> normalize_score slash_positive = 1
   \<and> map rv_isNegative (reviews (fst (state_of
        (processActivity demo_env (Some slash_positive) ''12'' (demo_store, empty_result))))) = [False]
   \<and> newNegative (snd (state_of
        (processActivity demo_env (Some slash_positive) ''12'' (demo_store, empty_result)))) = 1"
proof -
  let ?sr = "(demo_store, empty_result)"
  let ?d = "review_data demo_env slash_positive ''12''
              (activity_id (clock demo_env) slash_positive) (normalize_score slash_positive)"
  have ty: "a_type slash_positive = slash" by (simp add: slash_positive_def)
  have empty: "reviews (fst ?sr) = []" by (simp add: demo_store_def)
  then have fresh: "\<not> reviewExists (activity_id (clock demo_env) slash_positive) (fst ?sr)"
    by (simp add: reviewExists_def)
  from createReview_fresh [OF empty] obtain rv st1
    where cr: "createReview ?d (fst ?sr) = Returns (rv, st1)" by blast
  have neg: "rv_isNegative rv = False"
    using createReview_Returns(4) [OF cr] by (simp add: review_data_def slash_positive_score)
  have "review_facts (fst (state_of (processActivity demo_env (Some slash_positive) ''12'' ?sr))) = [rv]"
    using processActivity_facts [OF fresh cr] empty by (simp add: review_facts_def)
  then have "map rv_isNegative (review_facts (fst (state_of
        (processActivity demo_env (Some slash_positive) ''12'' ?sr)))) = [False]"
    using neg by simp
  then have flags: "map rv_isNegative (reviews (fst (state_of
        (processActivity demo_env (Some slash_positive) ''12'' ?sr)))) = [False]"
    by (simp only: isNegative_facts)
  have "processActivity demo_env (Some slash_positive) ''12'' ?sr
          = alert_negative demo_env slash_positive ''12'' rv (normalize_score slash_positive)
              (st1, snd ?sr)"
    using ty by (simp add: processActivity_created [OF fresh cr])
  then have "newNegative (snd (state_of (processActivity demo_env (Some slash_positive) ''12'' ?sr))) = 1"
    by (simp add: alert_negative_newNegative empty_result_def)
  with ty slash_positive_score flags show ?thesis by blast
qed

subsection \<open>Alert dispatch\<close>

lemma string_of_nat_nonempty: "string_of_nat n \<noteq> []"
  by (subst string_of_nat.simps) simp

lemma string_of_int_nonempty: "string_of_int i \<noteq> []"
  by (simp add: string_of_int_def string_of_nat_nonempty)

lemma sendAlert_telegram:
  "ar_telegram (sendAlert c svc tr p) =
     (if telegram_enabled c \<and> telegramBot svc \<and> present (telegram_chatId c)
      then (case telegram_send tr p of Returns n \<Rightarrow> Some (string_of_int n) | Throws e \<Rightarrow> None)
      else None)"
  by (simp add: sendAlert_def on_fulfilled_def sendTelegramAlert_def sendDiscordAlert_def
      sendTwitterAlert_def Let_def split: outcome.splits)

lemma sendAlert_discord:
  "ar_discord (sendAlert c svc tr p) =
     (if discord_enabled c \<and> present (discord_webhookUrl c)
      then (case discord_post tr p of Returns i \<Rightarrow> i | Throws e \<Rightarrow> None)
      else None)"
  by (simp add: sendAlert_def on_fulfilled_def sendTelegramAlert_def sendDiscordAlert_def
      sendTwitterAlert_def Let_def split: outcome.splits)

lemma sendAlert_twitter:
  "ar_twitter (sendAlert c svc tr p) =
     (if twitter_enabled c \<and> twitterClient svc then Some ''twitter_dm_disabled'' else None)"
  by (simp add: sendAlert_def on_fulfilled_def sendTelegramAlert_def sendDiscordAlert_def
      sendTwitterAlert_def Let_def split: outcome.splits)

text \<open>
  C4. \<open>sendAlert\<close> is total: whatever the transports do, it returns a result and throws
  nothing. The result has an entry for Telegram exactly when the channel is enabled, the
  bot and the chat are there and the transport returned a message number; for Discord
  when it is enabled, the webhook is there and the transport returned an id; for Twitter
  when it is enabled and the client is there. The entry of a channel does not depend on
  what the transport of another channel does, be it a thrown error.
\<close>

theorem sendAlert_all_settled:
  "ar_telegram (sendAlert c svc tr p) =
     (if telegram_enabled c \<and> telegramBot svc \<and> present (telegram_chatId c)
      then (case telegram_send tr p of Returns n \<Rightarrow> Some (string_of_int n) | Throws e \<Rightarrow> None)
      else None)
   \<and> ar_discord (sendAlert c svc tr p) =
     (if discord_enabled c \<and> present (discord_webhookUrl c)
      then (case discord_post tr p of Returns i \<Rightarrow> i | Throws e \<Rightarrow> None)
      else None)
   \<and> ar_twitter (sendAlert c svc tr p) =
     (if twitter_enabled c \<and> twitterClient svc then Some ''twitter_dm_disabled'' else None)
   \<and> ar_discord (sendAlert c svc (tr\<lparr>telegram_send := f\<rparr>) p) = ar_discord (sendAlert c svc tr p)
   \<and> ar_twitter (sendAlert c svc (tr\<lparr>telegram_send := f\<rparr>) p) = ar_twitter (sendAlert c svc tr p)
   \<and> ar_telegram (sendAlert c svc (tr\<lparr>discord_post := g\<rparr>) p) = ar_telegram (sendAlert c svc tr p)
   \<and> ar_twitter (sendAlert c svc (tr\<lparr>discord_post := g\<rparr>) p) = ar_twitter (sendAlert c svc tr p)"
  by (simp only: sendAlert_telegram sendAlert_discord sendAlert_twitter) simp

theorem sendAlert_all_settled_witness:
  "sendAlert demo_config demo_service telegram_down demo_payload
     = \<lparr>ar_telegram = None, ar_discord = Some ''d-77'', ar_twitter = Some ''twitter_dm_disabled''\<rparr>
   \<and> ar_discord (sendAlert demo_config demo_service demo_transports demo_payload) = Some ''d-77''"
proof -
  have t: "telegram_down = demo_transports\<lparr>telegram_send := (\<lambda>p. Throws ''ETIMEDOUT'')\<rparr>"
    by (simp add: telegram_down_def demo_transports_def)
  have c: "telegram_enabled demo_config" "telegramBot demo_service"
    "present (telegram_chatId demo_config)" "discord_enabled demo_config"
    "present (discord_webhookUrl demo_config)" "twitter_enabled demo_config"
    "twitterClient demo_service"
    by (simp_all add: demo_config_def demo_service_def present_def)
  have tr: "telegram_send telegram_down demo_payload = Throws ''ETIMEDOUT''"
    "discord_post telegram_down demo_payload = Returns (Some ''d-77'')"
    "discord_post demo_transports demo_payload = Returns (Some ''d-77'')"
    by (simp_all add: telegram_down_def demo_transports_def)
  from sendAlert_all_settled [of demo_config demo_service telegram_down demo_payload]
    sendAlert_all_settled [of demo_config demo_service demo_transports demo_payload]
    c tr
  have "ar_telegram (sendAlert demo_config demo_service telegram_down demo_payload) = None"
    and "ar_discord (sendAlert demo_config demo_service telegram_down demo_payload) = Some ''d-77''"
    and "ar_twitter (sendAlert demo_config demo_service telegram_down demo_payload)
           = Some ''twitter_dm_disabled''"
    and d: "ar_discord (sendAlert demo_config demo_service demo_transports demo_payload) = Some ''d-77''"
    by simp_all
  then show ?thesis
    by (cases "sendAlert demo_config demo_service telegram_down demo_payload") simp
qed

subsection \<open>Alert rows\<close>

lemma string_of_int_9001: "string_of_int 9001 = ''9001''"
  by (simp add: string_of_int_def string_of_nat.simps digit_char_def)

lemma string_of_int_41: "string_of_int 41 = ''41''"
  by (simp add: string_of_int_def string_of_nat.simps digit_char_def)

lemma slash_positive_id: "activity_id t slash_positive = ''9001''"
  by (simp add: activity_id_def source_id_def slash_positive_def data_field_def string_of_int_9001)

lemma slash_positive_data:
  "review_data demo_env slash_positive ''12'' ''9001'' 1 =
     \<lparr>rd_id = ''slash_9001'', rd_relationId = ''12'', rd_authorKey = ''profileId:7'',
      rd_authorName = Some ''mallory'', rd_authorAddr = Some ''0xabc'', rd_score = 1,
      rd_comment = Some ''penalty'', rd_activityId = Some ''9001'',
      rd_createdAt = 1700000000000\<rparr>"
  by (simp add: review_data_def slash_positive_def anon_author_def profileIdToUserkey_def
      string_of_int_def string_of_nat.simps digit_char_def or_else_def data_field_def
      parseActivityTimestamp_def seconds_to_ms_def demo_env_def)

lemma slash_positive_created:
  "createReview (review_data demo_env slash_positive ''12''
       (activity_id (clock demo_env) slash_positive) (normalize_score slash_positive)) demo_store
     = Returns (demo_review, demo_store\<lparr>reviews := [demo_review]\<rparr>)"
  by (simp add: slash_positive_id slash_positive_score slash_positive_data createReview_def
      demo_store_def demo_review_def Let_def)

lemma slash_positive_fresh:
  "\<not> reviewExists (activity_id (clock demo_env) slash_positive) (fst (demo_store, empty_result))"
  by (simp add: reviewExists_def demo_store_def)

lemma demo_relation_found:
  "getRelationById ''12'' (demo_store\<lparr>reviews := [demo_review]\<rparr>) = Some demo_relation"
  by (simp add: getRelationById_def demo_store_def demo_relation_def)

lemma demo_dispatch:
  "dispatch demo_env slash_positive ''12'' demo_relation demo_review 1
     = \<lparr>ar_telegram = Some ''41'', ar_discord = Some ''d-77'',
        ar_twitter = Some ''twitter_dm_disabled''\<rparr>"
proof -
  let ?d = "dispatch demo_env slash_positive ''12'' demo_relation demo_review 1"
  have "ar_telegram ?d = Some ''41''" "ar_discord ?d = Some ''d-77''"
    "ar_twitter ?d = Some ''twitter_dm_disabled''"
    by (simp_all add: dispatch_def sendAlert_telegram sendAlert_discord sendAlert_twitter
        demo_env_def demo_config_def demo_service_def demo_transports_def present_def
        string_of_int_41)
  then show ?thesis by (cases ?d) simp
qed

text \<open>
  C7 as stated fails. With the three channels enabled and delivering, the dispatch of a
  negative activity returns a delivery id for Twitter too, and the rows stored are the
  Telegram row and the Discord row: no row is stored for Twitter.
\<close>

theorem twitter_alert_not_stored:
  "ar_twitter (dispatch demo_env slash_positive ''12'' demo_relation demo_review 1)
     = Some ''twitter_dm_disabled''
   \<and> map alert_row (alerts (fst (state_of
        (processActivity demo_env (Some slash_positive) ''12'' (demo_store, empty_result)))))
     = [(TELEGRAM, Some ''41'', ''slash_9001''), (DISCORD, Some ''d-77'', ''slash_9001'')]"
proof -
  have ty: "a_type slash_positive = slash" by (simp add: slash_positive_def)
  have cr: "createReview (review_data demo_env slash_positive ''12''
       (activity_id (clock demo_env) slash_positive) (normalize_score slash_positive))
       (fst (demo_store, empty_result))
     = Returns (demo_review, demo_store\<lparr>reviews := [demo_review]\<rparr>)"
    using slash_positive_created by simp
  have p: "processActivity demo_env (Some slash_positive) ''12'' (demo_store, empty_result)
          = alert_negative demo_env slash_positive ''12'' demo_review 1
              (demo_store\<lparr>reviews := [demo_review]\<rparr>, empty_result)"
    using ty by (simp add: processActivity_created [OF slash_positive_fresh cr] slash_positive_score)
  have r: "getRelationById ''12'' (fst (demo_store\<lparr>reviews := [demo_review]\<rparr>, empty_result))
             = Some demo_relation"
    using demo_relation_found by simp
  have a0: "alerts (demo_store\<lparr>reviews := [demo_review]\<rparr>) = []"
    by (simp add: demo_store_def)
  have i: "rv_id demo_review = ''slash_9001''" by (simp add: demo_review_def)
  have "map alert_row (alerts (fst (state_of
        (processActivity demo_env (Some slash_positive) ''12'' (demo_store, empty_result)))))
     = [(TELEGRAM, Some ''41'', ''slash_9001''), (DISCORD, Some ''d-77'', ''slash_9001'')]"
    by (simp add: p alert_negative_rows [OF r] demo_dispatch channel_rows_def present_def a0 i)
  then show ?thesis by (simp add: demo_dispatch)
qed

text \<open>
  C7, amended. For every new negative activity whose review is created and whose relation
  is found, the alert rows added to the store are, in order, one row for Telegram when the
  dispatch returned a non-empty delivery id for Telegram and one row for Discord when it
  returned one for Discord, each with the message id of its channel and the id of the
  review; nothing is stored for a channel without a delivery id, nor for Twitter.
\<close>

theorem alert_rows_per_channel:
  assumes "\<not> reviewExists (activity_id (clock env) a) (fst sr)"
    and "createReview (review_data env a rid (activity_id (clock env) a) (normalize_score a))
           (fst sr) = Returns (rv, st1)"
    and "normalize_score a < 0 \<or> a_type a = slash"
    and "getRelationById rid st1 = Some relation"
  shows "map alert_row (alerts (fst (state_of (processActivity env (Some a) rid sr))))
           = map alert_row (alerts (fst sr))
             @ (if present (ar_telegram (dispatch env a rid relation rv (normalize_score a)))
                then [(TELEGRAM, ar_telegram (dispatch env a rid relation rv (normalize_score a)),
                       rv_id rv)]
                else [])
             @ (if present (ar_discord (dispatch env a rid relation rv (normalize_score a)))
                then [(DISCORD, ar_discord (dispatch env a rid relation rv (normalize_score a)),
                       rv_id rv)]
                else [])"
proof -
  have r: "getRelationById rid (fst (st1, snd sr)) = Some relation" using assms(4) by simp
  have "alerts st1 = alerts (fst sr)" by (rule createReview_Returns(8) [OF assms(2)])
  then show ?thesis
    using assms(3)
    by (simp add: processActivity_created [OF assms(1,2)] alert_negative_rows [OF r]
        channel_rows_def)
qed

theorem alert_rows_per_channel_witness:
  "map alert_row (alerts (fst (state_of
        (processActivity demo_env (Some slash_positive) ''12'' (demo_store, empty_result)))))
     = [(TELEGRAM, Some ''41'', ''slash_9001''), (DISCORD, Some ''d-77'', ''slash_9001'')]"
proof -
  have cr: "createReview (review_data demo_env slash_positive ''12''
       (activity_id (clock demo_env) slash_positive) (normalize_score slash_positive))
       (fst (demo_store, empty_result))
     = Returns (demo_review, demo_store\<lparr>reviews := [demo_review]\<rparr>)"
    using slash_positive_created by simp
  have n: "normalize_score slash_positive < 0 \<or> a_type slash_positive = slash"
    by (simp add: slash_positive_def)
  have a0: "alerts demo_store = []" by (simp add: demo_store_def)
  have i: "rv_id demo_review = ''slash_9001''" by (simp add: demo_review_def)
  from alert_rows_per_channel [OF slash_positive_fresh cr n demo_relation_found]
  show ?thesis
    by (simp add: slash_positive_score demo_dispatch present_def a0 i)
qed

subsection \<open>Defense submission and the credential\<close>

lemma list_ex_id: "list_ex (\<lambda>d. f d = ident) xs \<longleftrightarrow> ident \<in> set (map f xs)"
  by (auto simp: list_ex_iff)

lemma pending_defense_exists:
  "getPendingDefense reviewId st = Some pd \<Longrightarrow> list_ex (\<lambda>d. df_id d = df_id pd) (defenses st)"
  by (auto simp: getPendingDefense_def find_Some_iff list_ex_iff)

lemma updated_defense_fields [simp]:
  "df_id (updated_defense status a b c d) = df_id d"
  "df_status (updated_defense status a b c d) = status"
  "df_error (updated_defense status a b (Some e) d) = Some e"
  by (simp_all add: updated_defense_def)

lemma updated_row:
  assumes "g = (\<lambda>d. if df_id d = ident then updated_defense status a b c d else d)"
  shows "df_id (g d) = df_id d"
    and "df_id (g d) = ident \<Longrightarrow> df_status (g d) = status"
    and "df_id (g d) = ident \<Longrightarrow> c = Some e \<Longrightarrow> df_error (g d) = Some e"
  by (cases "df_id d = ident"; simp add: assms)+

lemma updateDefenseStatus_exists:
  assumes "list_ex (\<lambda>d. df_id d = ident) (defenses st)"
  shows "\<exists>st'. updateDefenseStatus ident status a b c st = Returns st'
           \<and> list_ex (\<lambda>d. df_id d = ident) (defenses st')
           \<and> (\<forall>d \<in> set (defenses st'). df_id d = ident \<longrightarrow> df_status d = status
                  \<and> (\<forall>e. c = Some e \<longrightarrow> df_error d = Some e))"
proof -
  define g where "g = (\<lambda>d. if df_id d = ident then updated_defense status a b c d else d)"
  have r: "updateDefenseStatus ident status a b c st
             = Returns (st\<lparr>defenses := map g (defenses st)\<rparr>)"
    using assms by (simp add: updateDefenseStatus_def g_def)
  have "map df_id (map g (defenses st)) = map df_id (defenses st)"
    by (simp add: updated_row(1) [OF g_def])
  then have "ident \<in> set (map df_id (map g (defenses st)))"
    using assms by (simp only: list_ex_id)
  then have ex: "list_ex (\<lambda>d. df_id d = ident) (map g (defenses st))"
    by (simp only: list_ex_id)
  have upd: "\<forall>d \<in> set (map g (defenses st)). df_id d = ident \<longrightarrow> df_status d = status
                  \<and> (\<forall>e. c = Some e \<longrightarrow> df_error d = Some e)"
  proof (intro ballI impI conjI allI)
    fix d e
    assume d: "d \<in> set (map g (defenses st))" and i: "df_id d = ident"
    from d obtain d0 where d0: "d = g d0" by auto
    from i d0 show "df_status d = status" using updated_row(2) [OF g_def] by simp
    assume "c = Some e"
    with i d0 show "df_error d = Some e" using updated_row(3) [OF g_def] by simp
  qed
  show ?thesis
  proof (intro exI conjI)
    show "updateDefenseStatus ident status a b c st
            = Returns (st\<lparr>defenses := map g (defenses st)\<rparr>)" by (rule r)
    show "list_ex (\<lambda>d. df_id d = ident) (defenses (st\<lparr>defenses := map g (defenses st)\<rparr>))"
      using ex by simp
    show "\<forall>d \<in> set (defenses (st\<lparr>defenses := map g (defenses st)\<rparr>)).
            df_id d = ident \<longrightarrow> df_status d = status
                  \<and> (\<forall>e. c = Some e \<longrightarrow> df_error d = Some e)"
      using upd by simp
  qed
qed

lemma postReview_sent: "snd (postReview net t s c xs) = xs @ [(t, s, c)]"
  by (simp add: postReview_def)

lemma postReview_failed:
  "reviews_http net t s c = Failed status msg \<Longrightarrow>
   fst (postReview net t s c xs)
     = \<lparr>pr_success = False, pr_reviewId = None, pr_txHash = None, pr_error = Some msg\<rparr>"
  by (simp add: postReview_def)

lemma executeDefense_sent:
  assumes "getAlertById alertId (store w) = Some al"
    and "getPendingDefense reviewId (store w) = Some pd"
  shows "sent (snd (executeDefense net alertId reviewId w))
           = sent w @ [(df_targetKey pd, df_score pd, df_comment pd)]"
proof -
  from updateDefenseStatus_exists [OF pending_defense_exists [OF assms(2)], of CONFIRMED None None None]
  obtain st1 where u: "updateDefenseStatus (df_id pd) CONFIRMED None None None (store w) = Returns st1"
    by blast
  show ?thesis
    by (simp add: executeDefense_def assms u Let_def postReview_sent
        split: outcome.splits)
qed

lemma executeDefense_failed:
  assumes "getAlertById alertId (store w) = Some al"
    and "getPendingDefense reviewId (store w) = Some pd"
    and "reviews_http net (df_targetKey pd) (df_score pd) (df_comment pd) = Failed status msg"
  shows "fst (executeDefense net alertId reviewId w) = False"
    and "\<forall>d \<in> set (defenses (store (snd (executeDefense net alertId reviewId w)))).
           df_id d = df_id pd \<longrightarrow> df_status d = FAILED \<and> df_error d = Some msg"
proof -
  from updateDefenseStatus_exists [OF pending_defense_exists [OF assms(2)], of CONFIRMED None None None]
  obtain st1 where u: "updateDefenseStatus (df_id pd) CONFIRMED None None None (store w) = Returns st1"
    and e1: "list_ex (\<lambda>d. df_id d = df_id pd) (defenses st1)"
    by blast
  from updateDefenseStatus_exists [OF e1, of FAILED None None "Some msg"]
  obtain st2 where u2: "updateDefenseStatus (df_id pd) FAILED None None (Some msg) st1 = Returns st2"
    and f: "\<forall>d \<in> set (defenses st2). df_id d = df_id pd \<longrightarrow> df_status d = FAILED
                  \<and> df_error d = Some msg"
    by blast
  have ex: "executeDefense net alertId reviewId w
              = (False, w\<lparr>store := st2,
                   sent := sent w @ [(df_targetKey pd, df_score pd, df_comment pd)]\<rparr>)"
    by (simp add: executeDefense_def assms(1,2) u Let_def postReview_sent
        postReview_failed [OF assms(3)] u2)
  show "fst (executeDefense net alertId reviewId w) = False" by (simp add: ex)
  show "\<forall>d \<in> set (defenses (store (snd (executeDefense net alertId reviewId w)))).
           df_id d = df_id pd \<longrightarrow> df_status d = FAILED \<and> df_error d = Some msg"
    using f by (simp add: ex)
qed

lemma executeDefense_credential:
  "executeDefense net alertId reviewId (w\<lparr>credential := c\<rparr>)
     = (fst (executeDefense net alertId reviewId w),
        (snd (executeDefense net alertId reviewId w))\<lparr>credential := c\<rparr>)"
  by (simp add: executeDefense_def Let_def split: option.splits outcome.splits)

lemma postCustomDefense_credential:
  "postCustomDefense net t s c r (w\<lparr>credential := cr\<rparr>)
     = (fst (postCustomDefense net t s c r w),
        (snd (postCustomDefense net t s c r w))\<lparr>credential := cr\<rparr>)"
  by (simp add: postCustomDefense_def Let_def split: option.splits outcome.splits)

lemma postCustomDefense_sent:
  "sent (snd (postCustomDefense net t s c r w)) = sent w @ [(t, s, c)]"
  by (simp add: postCustomDefense_def Let_def postReview_sent split: option.splits outcome.splits)

lemma postCustomDefense_failed:
  "reviews_http net t s c = Failed status msg \<Longrightarrow>
   fst (postCustomDefense net t s c r w)
     = \<lparr>pr_success = False, pr_reviewId = None, pr_txHash = None, pr_error = Some msg\<rparr>"
  by (simp add: postCustomDefense_def Let_def postReview_failed)

lemma expired_world_status: "isExpired (getStatus 1700000000000 (credential expired_world))"
  by (simp add: expired_world_def stale_service_def getStatus_def stale_payload_def Let_def)

lemma expired_world_alert: "getAlertById ''alert_0'' (store expired_world) = Some pending_alert"
  by (simp add: getAlertById_def expired_world_def pending_alert_def)

lemma expired_world_defense:
  "getPendingDefense ''slash_9001'' (store expired_world) = Some pending_defense"
  by (simp add: getPendingDefense_def expired_world_def pending_defense_def)

lemma rejecting_api_reviews: "reviews_http rejecting_api t s c = Failed (Some 401) ''Unauthorized''"
  by (simp add: rejecting_api_def)

text \<open>
  C5 as stated fails. With an expired credential, \<open>executeDefense\<close> on an alert with a
  pending defense sends the review to the network and returns \<open>false\<close>, and
  \<open>postCustomDefense\<close> sends its review and returns the error of the network.
\<close>

theorem expired_token_submission_attempted:
  "isExpired (getStatus 1700000000000 (credential expired_world))
   \<and> fst (executeDefense rejecting_api ''alert_0'' ''slash_9001'' expired_world) = False
   \<and> sent (snd (executeDefense rejecting_api ''alert_0'' ''slash_9001'' expired_world))
       = [(''profileId:12'', 3, ''Good standing member of the community.'')]
   \<and> sent (snd (postCustomDefense rejecting_api ''profileId:12'' 2 ''fine'' None expired_world))
       = [(''profileId:12'', 2, ''fine'')]
   \<and> pr_error (fst (postCustomDefense rejecting_api ''profileId:12'' 2 ''fine'' None expired_world))
       = Some ''Unauthorized''"
proof -
  have s0: "sent expired_world = []" by (simp add: expired_world_def)
  have pd: "df_targetKey pending_defense = ''profileId:12''" "df_score pending_defense = 3"
    "df_comment pending_defense = ''Good standing member of the community.''"
    by (simp_all add: pending_defense_def)
  have a: "fst (executeDefense rejecting_api ''alert_0'' ''slash_9001'' expired_world) = False"
    by (rule executeDefense_failed(1)
          [OF expired_world_alert expired_world_defense rejecting_api_reviews])
  have b: "sent (snd (executeDefense rejecting_api ''alert_0'' ''slash_9001'' expired_world))
       = [(''profileId:12'', 3, ''Good standing member of the community.'')]"
    by (simp add: executeDefense_sent [OF expired_world_alert expired_world_defense] s0 pd)
  have c: "sent (snd (postCustomDefense rejecting_api ''profileId:12'' 2 ''fine'' None
             expired_world)) = [(''profileId:12'', 2, ''fine'')]"
    by (simp add: postCustomDefense_sent s0)
  have d: "pr_error (fst (postCustomDefense rejecting_api ''profileId:12'' 2 ''fine'' None
             expired_world)) = Some ''Unauthorized''"
    by (simp add: postCustomDefense_failed [OF rejecting_api_reviews])
  from expired_world_status a b c d show ?thesis by blast
qed

text \<open>
  C5, amended. Neither \<open>executeDefense\<close> nor \<open>postCustomDefense\<close> reads the credential:
  with another credential they return the same and leave the same state. Whatever the
  status of the token, \<open>executeDefense\<close> sends the review of the active defense once
  when the alert and the defense are found, and \<open>postCustomDefense\<close> always sends its
  review once. A failure is the failure of the network: \<open>executeDefense\<close> returns
  \<open>false\<close> and marks the defense failed with the error of the request, and
  \<open>postCustomDefense\<close> returns that error.
\<close>

theorem defense_submission_not_gated:
  "executeDefense net alertId reviewId (w\<lparr>credential := c\<rparr>)
     = (fst (executeDefense net alertId reviewId w),
        (snd (executeDefense net alertId reviewId w))\<lparr>credential := c\<rparr>)
   \<and> postCustomDefense net t s cm r (w\<lparr>credential := c\<rparr>)
     = (fst (postCustomDefense net t s cm r w),
        (snd (postCustomDefense net t s cm r w))\<lparr>credential := c\<rparr>)
   \<and> (getAlertById alertId (store w) = Some al \<and> getPendingDefense reviewId (store w) = Some pd
        \<longrightarrow> sent (snd (executeDefense net alertId reviewId w))
              = sent w @ [(df_targetKey pd, df_score pd, df_comment pd)])
   \<and> (getAlertById alertId (store w) = Some al \<and> getPendingDefense reviewId (store w) = Some pd
        \<and> reviews_http net (df_targetKey pd) (df_score pd) (df_comment pd) = Failed status msg
        \<longrightarrow> fst (executeDefense net alertId reviewId w) = False
            \<and> (\<forall>d \<in> set (defenses (store (snd (executeDefense net alertId reviewId w)))).
                  df_id d = df_id pd \<longrightarrow> df_status d = FAILED \<and> df_error d = Some msg))
   \<and> sent (snd (postCustomDefense net t s cm r w)) = sent w @ [(t, s, cm)]
   \<and> (reviews_http net t s cm = Failed status msg
        \<longrightarrow> fst (postCustomDefense net t s cm r w)
              = \<lparr>pr_success = False, pr_reviewId = None, pr_txHash = None,
                 pr_error = Some msg\<rparr>)"
proof -
  have 1: "executeDefense net alertId reviewId (w\<lparr>credential := c\<rparr>)
     = (fst (executeDefense net alertId reviewId w),
        (snd (executeDefense net alertId reviewId w))\<lparr>credential := c\<rparr>)"
    by (rule executeDefense_credential)
  have 2: "postCustomDefense net t s cm r (w\<lparr>credential := c\<rparr>)
     = (fst (postCustomDefense net t s cm r w),
        (snd (postCustomDefense net t s cm r w))\<lparr>credential := c\<rparr>)"
    by (rule postCustomDefense_credential)
  have 3: "getAlertById alertId (store w) = Some al \<and> getPendingDefense reviewId (store w) = Some pd
        \<longrightarrow> sent (snd (executeDefense net alertId reviewId w))
              = sent w @ [(df_targetKey pd, df_score pd, df_comment pd)]"
    using executeDefense_sent by blast
  have 4: "getAlertById alertId (store w) = Some al \<and> getPendingDefense reviewId (store w) = Some pd
        \<and> reviews_http net (df_targetKey pd) (df_score pd) (df_comment pd) = Failed status msg
        \<longrightarrow> fst (executeDefense net alertId reviewId w) = False
            \<and> (\<forall>d \<in> set (defenses (store (snd (executeDefense net alertId reviewId w)))).
                  df_id d = df_id pd \<longrightarrow> df_status d = FAILED \<and> df_error d = Some msg)"
  proof (intro impI, elim conjE)
    assume h: "getAlertById alertId (store w) = Some al"
      "getPendingDefense reviewId (store w) = Some pd"
      "reviews_http net (df_targetKey pd) (df_score pd) (df_comment pd) = Failed status msg"
    from executeDefense_failed(1) [OF h] executeDefense_failed(2) [OF h]
    show "fst (executeDefense net alertId reviewId w) = False
            \<and> (\<forall>d \<in> set (defenses (store (snd (executeDefense net alertId reviewId w)))).
                  df_id d = df_id pd \<longrightarrow> df_status d = FAILED \<and> df_error d = Some msg)"
      by (rule conjI)
  qed
  have 5: "sent (snd (postCustomDefense net t s cm r w)) = sent w @ [(t, s, cm)]"
    by (rule postCustomDefense_sent)
  have 6: "reviews_http net t s cm = Failed status msg
        \<longrightarrow> fst (postCustomDefense net t s cm r w)
              = \<lparr>pr_success = False, pr_reviewId = None, pr_txHash = None,
                 pr_error = Some msg\<rparr>"
    using postCustomDefense_failed by blast
  from 1 2 3 4 5 6 show ?thesis by - (intro conjI; assumption)
qed

theorem defense_submission_not_gated_witness:
  "isExpired (getStatus 1700000000000 (credential expired_world))
   \<and> sent (snd (executeDefense rejecting_api ''alert_0'' ''slash_9001'' expired_world))
       = sent expired_world @ [(''profileId:12'', 3, ''Good standing member of the community.'')]
   \<and> fst (postCustomDefense rejecting_api ''profileId:12'' 2 ''fine'' None expired_world)
       = \<lparr>pr_success = False, pr_reviewId = None, pr_txHash = None,
          pr_error = Some ''Unauthorized''\<rparr>"
proof -
  have pd: "df_targetKey pending_defense = ''profileId:12''" "df_score pending_defense = 3"
    "df_comment pending_defense = ''Good standing member of the community.''"
    by (simp_all add: pending_defense_def)
  from defense_submission_not_gated
         [where net = rejecting_api and alertId = "''alert_0''" and reviewId = "''slash_9001''"
            and w = expired_world and t = "''profileId:12''" and s = 2 and cm = "''fine''"
            and r = None and al = pending_alert and pd = pending_defense
            and status = "Some 401" and msg = "''Unauthorized''" and c = fresh_service]
    expired_world_alert expired_world_defense rejecting_api_reviews expired_world_status pd
  show ?thesis by simp
qed

subsection \<open>The single-flight guard\<close>

lemma cycle_run_clears_guard: "\<not> isRunning (snd (cycle_run env w))"
  by (simp add: cycle_run_def Let_def logMonitorRun_def split: option.splits)

lemma cycle_run_log_fault:
  "log_fault env = Some e \<Longrightarrow>
   last (errors (fst (cycle_run env w))) = ''Cycle failed: '' @ e
   \<and> monitorLogs (store (snd (cycle_run env w)))
       = monitorLogs (fst (process_vouches env (getVouches (api env) (userKey (cfg env)))
                             (store w, empty_result)))"
  by (simp add: cycle_run_def Let_def logMonitorRun_def)

lemma runMonitorCycle_running:
  "isRunning w \<Longrightarrow> runMonitorCycle env w = (skipped_result, w)"
  by (simp add: runMonitorCycle_def cycle_enter_def)

lemma runMonitorCycle_idle:
  "\<not> isRunning w \<Longrightarrow> runMonitorCycle env w = cycle_run env (w\<lparr>isRunning := True\<rparr>)"
  by (simp add: runMonitorCycle_def cycle_enter_def)

lemma step_trigger_running:
  "isRunning (world s) \<Longrightarrow> step s (Trigger env) = s\<lparr>returned := returned s @ [skipped_result]\<rparr>"
  by (simp add: step_def cycle_enter_def)

lemma step_guard_ok: "guard_ok s \<Longrightarrow> guard_ok (step s ev)"
proof (cases ev)
  case (Trigger env)
  assume "guard_ok s"
  then show ?thesis
    by (cases "isRunning (world s)") (simp_all add: Trigger step_def cycle_enter_def guard_ok_def)
next
  case Complete
  assume g: "guard_ok s"
  show ?thesis
  proof (cases "in_flight s")
    case Nil
    with g show ?thesis by (simp add: Complete step_def)
  next
    case (Cons env rest)
    with g have "rest = []" by (simp add: guard_ok_def)
    with Cons show ?thesis
      by (simp add: Complete step_def guard_ok_def Let_def cycle_run_clears_guard)
  qed
qed

lemma run_events_guard_ok: "guard_ok s \<Longrightarrow> guard_ok (run_events s evs)"
  unfolding run_events_def
  by (induction evs arbitrary: s) (simp_all add: step_guard_ok)

text \<open>
  C3. A trigger that finds the guard set returns at once the result with all counts zero
  and the notice \<open>Cycle already running\<close>, and leaves the whole state as it was: no
  ingestion, no log row. A cycle that runs clears the guard when it exits, also when the
  log write fails and the failure is recorded. Over every interleaving of triggers and
  completions from an idle monitor, at most one cycle is in flight, and the guard is set
  exactly while one is.
\<close>

theorem single_flight:
  "(isRunning w \<longrightarrow> runMonitorCycle env w = (skipped_result, w))
   \<and> relationsChecked skipped_result = 0 \<and> reviewsFound skipped_result = 0
   \<and> newNegative skipped_result = 0 \<and> alertsSent skipped_result = 0
   \<and> errors skipped_result = [''Cycle already running'']
   \<and> \<not> isRunning (snd (cycle_run env w))
   \<and> (\<not> isRunning w \<longrightarrow> \<not> isRunning (snd (runMonitorCycle env w)))
   \<and> (log_fault env = Some e \<longrightarrow>
         last (errors (fst (cycle_run env w))) = ''Cycle failed: '' @ e)
   \<and> (isRunning (world s) \<longrightarrow>
         step s (Trigger env) = s\<lparr>returned := returned s @ [skipped_result]\<rparr>)
   \<and> (in_flight s = [] \<and> \<not> isRunning (world s) \<longrightarrow>
         length (in_flight (run_events s evs)) \<le> 1
         \<and> (isRunning (world (run_events s evs)) = (in_flight (run_events s evs) \<noteq> [])))"
proof -
  have 1: "isRunning w \<longrightarrow> runMonitorCycle env w = (skipped_result, w)"
    using runMonitorCycle_running by blast
  have 2: "relationsChecked skipped_result = 0 \<and> reviewsFound skipped_result = 0
   \<and> newNegative skipped_result = 0 \<and> alertsSent skipped_result = 0
   \<and> errors skipped_result = [''Cycle already running'']"
    by (simp add: skipped_result_def)
  have 3: "\<not> isRunning (snd (cycle_run env w))" by (rule cycle_run_clears_guard)
  have 4: "\<not> isRunning w \<longrightarrow> \<not> isRunning (snd (runMonitorCycle env w))"
    by (simp add: runMonitorCycle_idle cycle_run_clears_guard)
  have 5: "log_fault env = Some e \<longrightarrow>
         last (errors (fst (cycle_run env w))) = ''Cycle failed: '' @ e"
    using cycle_run_log_fault by blast
  have 6: "isRunning (world s) \<longrightarrow>
         step s (Trigger env) = s\<lparr>returned := returned s @ [skipped_result]\<rparr>"
    using step_trigger_running by blast
  have 7: "in_flight s = [] \<and> \<not> isRunning (world s) \<longrightarrow>
         length (in_flight (run_events s evs)) \<le> 1
         \<and> (isRunning (world (run_events s evs)) = (in_flight (run_events s evs) \<noteq> []))"
  proof
    assume "in_flight s = [] \<and> \<not> isRunning (world s)"
    then have "guard_ok s" by (simp add: guard_ok_def)
    then have "guard_ok (run_events s evs)" by (rule run_events_guard_ok)
    then show "length (in_flight (run_events s evs)) \<le> 1
         \<and> (isRunning (world (run_events s evs)) = (in_flight (run_events s evs) \<noteq> []))"
      by (simp add: guard_ok_def)
  qed
  from 1 2 3 4 5 6 7 show ?thesis by - (intro conjI; (elim conjE)?; assumption)
qed

theorem single_flight_witness:
  "runMonitorCycle demo_env running_world = (skipped_result, running_world)
   \<and> \<not> isRunning (snd (runMonitorCycle demo_env idle_world))
   \<and> length (in_flight (run_events idle_scheduler
                 [Trigger demo_env, Trigger demo_env, Complete, Trigger demo_env])) \<le> 1"
proof -
  have r: "isRunning running_world" by (simp add: running_world_def)
  have n: "\<not> isRunning idle_world" by (simp add: idle_world_def)
  have i: "in_flight idle_scheduler = [] \<and> \<not> isRunning (world idle_scheduler)"
    by (simp add: idle_scheduler_def idle_world_def)
  from single_flight [where w = running_world and env = demo_env and s = idle_scheduler
         and evs = "[Trigger demo_env, Trigger demo_env, Complete, Trigger demo_env]"] r i
  have a: "runMonitorCycle demo_env running_world = (skipped_result, running_world)"
    and c: "length (in_flight (run_events idle_scheduler
                 [Trigger demo_env, Trigger demo_env, Complete, Trigger demo_env])) \<le> 1"
    by blast+
  from single_flight [where w = idle_world and env = demo_env] n
  have b: "\<not> isRunning (snd (runMonitorCycle demo_env idle_world))" by blast
  from a b c show ?thesis by - (intro conjI; assumption)
qed

subsection \<open>Failures of the list operations\<close>

lemma review_data_api [simp]:
  "review_data (env\<lparr>api := net\<rparr>) a rid aid score = review_data env a rid aid score"
  by (simp add: review_data_def)

lemma build_payload_api [simp]:
  "build_payload (env\<lparr>api := net\<rparr>) a rid rel rv score d = build_payload env a rid rel rv score d"
  by (simp add: build_payload_def)

lemma dispatch_api [simp]:
  "dispatch (env\<lparr>api := net\<rparr>) a rid rel rv score = dispatch env a rid rel rv score"
  by (simp add: dispatch_def)

lemma alert_negative_api [simp]:
  "alert_negative (env\<lparr>api := net\<rparr>) a rid rv score sr = alert_negative env a rid rv score sr"
  by (simp add: alert_negative_def Let_def cong: option.case_cong)

lemma processActivity_api [simp]:
  "processActivity (env\<lparr>api := net\<rparr>) x rid sr = processActivity env x rid sr"
  by (cases x) (simp_all add: processActivity_def Let_def cong: outcome.case_cong if_cong)

lemma process_activities_api [simp]:
  "process_activities (env\<lparr>api := net\<rparr>) rid as sr = process_activities env rid as sr"
  by (induction as arbitrary: sr) (simp_all split: completion.splits)

lemma resolve_profile_cong:
  "getProfile net' = getProfile net \<Longrightarrow> resolve_profile net' v = resolve_profile net v"
  by (simp add: resolve_profile_def Let_def cong: if_cong)

lemma process_vouch_cong:
  assumes "getReceivedActivities net' = getReceivedActivities net"
    and "getProfile net' = getProfile net"
  shows "process_vouch (env\<lparr>api := net'\<rparr>) v sr = process_vouch (env\<lparr>api := net\<rparr>) v sr"
  by (simp add: process_vouch_def assms(1) resolve_profile_cong [OF assms(2)] Let_def
      cong: outcome.case_cong option.case_cong if_cong)

lemma process_vouches_cong:
  assumes "getReceivedActivities net' = getReceivedActivities net"
    and "getProfile net' = getProfile net"
  shows "process_vouches (env\<lparr>api := net'\<rparr>) vs sr = process_vouches (env\<lparr>api := net\<rparr>) vs sr"
  by (induction vs arbitrary: sr)
     (simp_all add: process_vouch_cong [OF assms] split: completion.splits)

lemma cycle_run_cong:
  assumes "getVouches net' = getVouches net"
    and "getReceivedActivities net' = getReceivedActivities net"
    and "getProfile net' = getProfile net"
  shows "cycle_run (env\<lparr>api := net'\<rparr>) w = cycle_run (env\<lparr>api := net\<rparr>) w"
  by (simp add: cycle_run_def assms(1) process_vouches_cong [OF assms(2,3)] Let_def)

lemma runMonitorCycle_cong:
  assumes "getVouches net' = getVouches net"
    and "getReceivedActivities net' = getReceivedActivities net"
    and "getProfile net' = getProfile net"
  shows "runMonitorCycle (env\<lparr>api := net'\<rparr>) w = runMonitorCycle (env\<lparr>api := net\<rparr>) w"
  by (simp add: runMonitorCycle_def cycle_run_cong [OF assms] split: admission.splits)

lemma getVouches_failed:
  "extractProfileId key = Some (Some pid) \<Longrightarrow> vouches_http net pid = Failed status msg \<Longrightarrow>
   getVouches net key = []"
  by (simp add: getVouches_def)

lemma getVouches_no_profile:
  "extractProfileId key = None \<or> extractProfileId key = Some None
     \<or> extractProfileId key = Some (Some 0) \<Longrightarrow> getVouches net key = []"
  by (auto simp: getVouches_def)

lemma getVouches_malformed:
  assumes "extractProfileId key = Some (Some pid)" and "vouches_http net pid = Ok b"
    and "\<forall>vs. body_values b = Array vs \<longrightarrow> None \<in> set vs"
  shows "getVouches net key = []"
proof (cases "body_values b")
  case Missing
  then show ?thesis using assms(1,2)
    by (cases b) (simp_all add: getVouches_def)
next
  case (Array vs)
  with assms(3) have "None \<in> set vs" by blast
  then have "those vs = None" by (induction vs) (auto split: option.splits)
  with Array show ?thesis using assms(1,2) by (simp add: getVouches_def)
next
  case NonArray
  then show ?thesis using assms(1,2) by (simp add: getVouches_def)
qed

lemma getReceivedActivities_failed:
  "activities_http net k = Failed status msg \<Longrightarrow> getReceivedActivities net k = []"
  by (simp add: getReceivedActivities_def)

lemma getReceivedActivities_upd:
  assumes "activities_http net k = Failed status msg"
  shows "getReceivedActivities (net\<lparr>activities_http := (activities_http net)(k := Ok empty_page)\<rparr>)
           = getReceivedActivities net"
proof
  fix k'
  show "getReceivedActivities (net\<lparr>activities_http := (activities_http net)(k := Ok empty_page)\<rparr>) k'
           = getReceivedActivities net k'"
    using assms by (cases "k' = k") (simp_all add: getReceivedActivities_def empty_page_def)
qed

lemma getVouches_upd:
  assumes "vouches_http net pid = Failed status msg"
  shows "getVouches (net\<lparr>vouches_http := (vouches_http net)(pid := Ok empty_page)\<rparr>) = getVouches net"
proof
  fix key
  show "getVouches (net\<lparr>vouches_http := (vouches_http net)(pid := Ok empty_page)\<rparr>) key
          = getVouches net key"
  proof (cases "extractProfileId key = Some (Some pid)")
    case True
    then show ?thesis using assms by (simp add: getVouches_def empty_page_def)
  next
    case False
    then show ?thesis
      by (simp add: getVouches_def split: option.splits)
  qed
qed

lemma getProfile_upd [simp]:
  "getProfile (net\<lparr>activities_http := f\<rparr>) = getProfile net"
  "getProfile (net\<lparr>vouches_http := g\<rparr>) = getProfile net"
  by (intro ext, simp add: getProfile_def Let_def cong: if_cong)+

lemma getVouches_activities_upd [simp]:
  "getVouches (net\<lparr>activities_http := f\<rparr>) = getVouches net"
  by (intro ext) (simp add: getVouches_def cong: option.case_cong if_cong)

lemma getReceivedActivities_vouches_upd [simp]:
  "getReceivedActivities (net\<lparr>vouches_http := g\<rparr>) = getReceivedActivities net"
  by (intro ext) (simp add: getReceivedActivities_def cong: if_cong)

lemma cycle_run_no_vouches:
  assumes "getVouches (api env) (userKey (cfg env)) = []"
  shows "errors (fst (cycle_run env w))
           = (case log_fault env of None \<Rightarrow> [] | Some e \<Rightarrow> [''Cycle failed: '' @ e])"
  using assms
  by (simp add: cycle_run_def Let_def logMonitorRun_def empty_result_def split: option.splits)

lemma env_api_same: "env\<lparr>api := api env\<rparr> = env"
  by simp

lemma demo_profile_id: "extractProfileId ''profileId:1'' = Some (Some 1)"
  by (simp add: extractProfileId_def startsWith_def parseInt_def is_space_def is_digit_def
      digits_value_def Let_def)

subsection \<open>Idempotent ingestion\<close>




lemma well_keyed_alerted [simp]: "well_keyed (r\<lparr>rv_alerted := b\<rparr>) = well_keyed r"
  by (simp add: well_keyed_def split: option.splits)





lemma records_of_facts:
  "records_of aid st = length (filter (\<lambda>r. rv_activityId r = Some aid) (review_facts st))"
  by (simp add: records_of_def review_facts_def filter_map comp_def)













lemma upsertRelation_frame [simp]:
  "reviews (upsertRelation a b c d e st) = reviews st"
  "alerts (upsertRelation a b c d e st) = alerts st"
  "defenses (upsertRelation a b c d e st) = defenses st"
  "monitorLogs (upsertRelation a b c d e st) = monitorLogs st"
  by (simp_all add: upsertRelation_def)



text \<open>What one relation does to the store in a cycle.\<close>

lemma process_vouch_shape:
  "process_vouch env v sr =
     (case resolve_profile (api env) v of
        Throws e \<Rightarrow> Abrupt e (fst sr, (snd sr)\<lparr>relationsChecked := relationsChecked (snd sr) + 1\<rparr>)
      | Returns None \<Rightarrow> Normal (fst sr, (snd sr)\<lparr>relationsChecked := relationsChecked (snd sr) + 1\<rparr>)
      | Returns (Some pd) \<Rightarrow>
          if \<not> present (pd_address pd)
          then Normal (fst sr, (snd sr)\<lparr>relationsChecked := relationsChecked (snd sr) + 1\<rparr>)
          else process_activities env (string_of_int (v_id v)) (relation_activities (api env) v)
                 (upsertRelation (string_of_int (v_id v)) (profileIdToUserkey (v_subjectProfileId v))
                    (pd_name pd) (case pd_address pd of Some address \<Rightarrow> address | None \<Rightarrow> [])
                    (pd_avatar pd) (fst sr),
                  (snd sr)\<lparr>relationsChecked := relationsChecked (snd sr) + 1,
                    reviewsFound := reviewsFound (snd sr)
                       + length (relation_activities (api env) v)\<rparr>))"
  by (simp add: process_vouch_def relation_activities_def Let_def
      split: outcome.splits option.splits)




lemma process_vouches_Cons:
  "\<exists>r. process_vouches env (v # vs) sr
          = process_vouches env vs (fst (state_of (process_vouch env v sr)), r)
        \<and> newNegative r = newNegative (snd (state_of (process_vouch env v sr)))
        \<and> alertsSent r = alertsSent (snd (state_of (process_vouch env v sr)))"
proof (cases "process_vouch env v sr")
  case (Normal s)
  have "process_vouches env (v # vs) sr = process_vouches env vs (fst s, snd s)"
    by (simp add: Normal)
  then show ?thesis using Normal by (intro exI [of _ "snd s"]) simp
next
  case (Abrupt e s)
  let ?r = "(snd s)\<lparr>errors := errors (snd s) @
                [''Error processing relation '' @ string_of_int (v_subjectProfileId v)
                   @ '': '' @ e]\<rparr>"
  have "process_vouches env (v # vs) sr = process_vouches env vs (fst s, ?r)"
    by (simp add: Abrupt)
  then show ?thesis using Abrupt by (intro exI [of _ ?r]) simp
qed










lemma relation_activities_live:
  assumes "relation_activities net v \<noteq> []"
  shows "\<exists>pd. resolve_profile net v = Returns (Some pd) \<and> present (pd_address pd)"
  using assms
  by (auto simp: relation_activities_def split: outcome.splits option.splits if_splits)



lemma serving_vouches: "getVouches (serving x) ''profileId:1'' = [convert_vouch tracked_raw]"
  by (simp add: getVouches_def demo_profile_id serving_def)

lemma serving_activities:
  "relation_activities (serving x) (convert_vouch tracked_raw) = [x]"
  by (simp add: relation_activities_def resolve_profile_def embedded_profile_def
      convert_vouch_def tracked_raw_def or_else_def present_def getReceivedActivities_def
      serving_def Let_def)

lemma empty_world_ok: "store_ok (store empty_world)" "\<not> isRunning empty_world"
  by (simp_all add: empty_world_def store_ok_def)








subsection \<open>The list operations in a cycle\<close>

lemma getReceivedActivities_values:
  "activities_http net k = Ok b \<Longrightarrow> body_values b = Array xs \<Longrightarrow>
   getReceivedActivities net k = xs"
  by (simp add: getReceivedActivities_def)

lemma getReceivedActivities_activities:
  "activities_http net k = Ok b \<Longrightarrow> body_values b = Missing \<Longrightarrow> body_activities b = Array xs \<Longrightarrow>
   getReceivedActivities net k = xs"
  by (simp add: getReceivedActivities_def)

lemma getReceivedActivities_no_array:
  assumes "activities_http net k = Ok b" and "\<forall>xs. body_values b \<noteq> Array xs"
    and "body_values b = Missing \<longrightarrow> (\<forall>xs. body_activities b \<noteq> Array xs)"
  shows "getReceivedActivities net k = []"
  using assms
  by (cases "body_values b"; cases "body_activities b")
     (simp_all add: getReceivedActivities_def)

text \<open>Nothing but the \<open>catch\<close> of the loop over the relations writes to the error list.\<close>

lemma store_alerts_errors [simp]:
  "errors (snd (store_alerts ar p rid relid sr)) = errors (snd sr)"
  by (simp add: store_alerts_def Let_def)

lemma alert_negative_errors:
  "errors (snd (state_of (alert_negative env a rid rv score sr))) = errors (snd sr)"
  by (auto simp: alert_negative_def Let_def split: option.splits outcome.splits)

lemma processActivity_errors:
  "errors (snd (state_of (processActivity env x rid sr))) = errors (snd sr)"
proof (cases x)
  case None
  then show ?thesis by (simp add: processActivity_null)
next
  case (Some a)
  show ?thesis
  proof (cases "reviewExists (activity_id (clock env) a) (fst sr)")
    case True
    then show ?thesis by (simp add: Some processActivity_exists)
  next
    case False
    show ?thesis
    proof (cases "createReview (review_data env a rid (activity_id (clock env) a)
                     (normalize_score a)) (fst sr)")
      case (Throws e)
      then show ?thesis using False by (simp add: Some processActivity_def Let_def)
    next
      case (Returns created)
      then obtain rv st1 where "created = (rv, st1)" by (cases created)
      with Returns show ?thesis
        by (simp add: Some processActivity_created [OF False] alert_negative_errors)
    qed
  qed
qed

lemma process_activities_errors:
  "errors (snd (state_of (process_activities env rid xs sr))) = errors (snd sr)"
proof (induction xs arbitrary: sr)
  case Nil
  show ?case by simp
next
  case (Cons x xs)
  show ?case
  proof (cases "processActivity env x rid sr")
    case (Normal s)
    with processActivity_errors [of env x rid sr] have "errors (snd s) = errors (snd sr)"
      by simp
    with Cons.IH [of s] Normal show ?thesis by simp
  next
    case (Abrupt e s)
    with processActivity_errors [of env x rid sr] show ?thesis by simp
  qed
qed

lemma process_vouch_errors:
  "errors (snd (state_of (process_vouch env v sr))) = errors (snd sr)"
  by (simp add: process_vouch_shape process_activities_errors
      split: outcome.splits option.splits)

lemma process_vouches_errors:
  "set (errors (snd sr)) \<subseteq> set (errors (snd (process_vouches env vs sr)))"
proof (induction vs arbitrary: sr)
  case Nil
  show ?case by simp
next
  case (Cons v vs)
  show ?case
  proof (cases "process_vouch env v sr")
    case (Normal s)
    with process_vouch_errors [of env v sr] have "errors (snd s) = errors (snd sr)" by simp
    with Cons.IH [of s] Normal show ?thesis by simp
  next
    case (Abrupt e s)
    define s' where "s' = (fst s, (snd s)\<lparr>errors := errors (snd s) @
                [''Error processing relation '' @ string_of_int (v_subjectProfileId v)
                   @ '': '' @ e]\<rparr>)"
    from Abrupt process_vouch_errors [of env v sr] have "errors (snd s) = errors (snd sr)"
      by simp
    then have a: "set (errors (snd sr)) \<subseteq> set (errors (snd s'))" by (auto simp: s'_def)
    have r: "process_vouches env (v # vs) sr = process_vouches env vs s'"
      by (simp add: Abrupt s'_def)
    from a Cons.IH [of s'] show ?thesis unfolding r by blast
  qed
qed

text \<open>A \<open>null\<close> in the list of a relation ends its pass with an exception.\<close>

lemma process_activities_null:
  "None \<in> set xs \<Longrightarrow> \<exists>e s. process_activities env rid xs sr = Abrupt e s"
proof (induction xs arbitrary: sr)
  case Nil
  then show ?case by simp
next
  case (Cons x xs)
  show ?case
  proof (cases "processActivity env x rid sr")
    case (Abrupt e s)
    then show ?thesis by simp
  next
    case (Normal s)
    have "x \<noteq> None"
    proof
      assume "x = None"
      with Normal show False by (simp add: processActivity_null)
    qed
    with Cons.prems have "None \<in> set xs" by auto
    from Cons.IH [OF this, of s] Normal show ?thesis by simp
  qed
qed

lemma process_vouch_listed:
  assumes "resolve_profile (api env) v = Returns (Some pd)" and "present (pd_address pd)"
  shows "\<exists>st res. process_vouch env v sr
             = process_activities env (string_of_int (v_id v))
                 (relation_activities (api env) v) (st, res)
           \<and> errors res = errors (snd sr)
           \<and> reviewsFound res
               = reviewsFound (snd sr) + length (relation_activities (api env) v)"
proof -
  define st where "st = upsertRelation (string_of_int (v_id v))
                    (profileIdToUserkey (v_subjectProfileId v)) (pd_name pd)
                    (case pd_address pd of Some address \<Rightarrow> address | None \<Rightarrow> [])
                    (pd_avatar pd) (fst sr)"
  define res where "res = (snd sr)\<lparr>relationsChecked := relationsChecked (snd sr) + 1,
                    reviewsFound := reviewsFound (snd sr)
                       + length (relation_activities (api env) v)\<rparr>"
  have "process_vouch env v sr
          = process_activities env (string_of_int (v_id v))
              (relation_activities (api env) v) (st, res)"
    using assms by (simp add: process_vouch_shape st_def res_def)
  moreover have "errors res = errors (snd sr)" by (simp add: res_def)
  moreover have "reviewsFound res
                   = reviewsFound (snd sr) + length (relation_activities (api env) v)"
    by (simp add: res_def)
  ultimately show ?thesis by blast
qed

lemma process_vouch_null:
  assumes "None \<in> set (relation_activities (api env) v)"
  shows "\<exists>e s. process_vouch env v sr = Abrupt e s"
proof -
  from assms have "relation_activities (api env) v \<noteq> []" by auto
  from relation_activities_live [OF this] obtain pd
    where pd: "resolve_profile (api env) v = Returns (Some pd)" "present (pd_address pd)"
    by blast
  from process_vouch_listed [OF pd, of sr] obtain st res
    where p: "process_vouch env v sr
                = process_activities env (string_of_int (v_id v))
                    (relation_activities (api env) v) (st, res)"
    by blast
  from process_activities_null [OF assms] show ?thesis unfolding p .
qed

lemma process_vouches_null:
  assumes "v \<in> set vs" and "None \<in> set (relation_activities (api env) v)"
  shows "\<exists>e. (''Error processing relation '' @ string_of_int (v_subjectProfileId v)
                @ '': '' @ e) \<in> set (errors (snd (process_vouches env vs sr)))"
  using assms(1)
proof (induction vs arbitrary: sr)
  case Nil
  then show ?case by simp
next
  case (Cons u vs)
  show ?case
  proof (cases "u = v")
    case True
    from process_vouch_null [OF assms(2), of sr] obtain e s
      where a: "process_vouch env v sr = Abrupt e s" by blast
    define m where "m = ''Error processing relation '' @ string_of_int (v_subjectProfileId v)
                          @ '': '' @ e"
    define s' where "s' = (fst s, (snd s)\<lparr>errors := errors (snd s) @ [m]\<rparr>)"
    have r: "process_vouches env (u # vs) sr = process_vouches env vs s'"
      by (simp add: True a s'_def m_def)
    have "m \<in> set (errors (snd s'))" by (simp add: s'_def)
    with process_vouches_errors [of s' env vs]
    have "m \<in> set (errors (snd (process_vouches env vs s')))" by blast
    then show ?thesis unfolding r m_def by blast
  next
    case False
    with Cons.prems have mem: "v \<in> set vs" by simp
    from process_vouches_Cons [of env u vs sr] obtain r
      where r: "process_vouches env (u # vs) sr
                  = process_vouches env vs (fst (state_of (process_vouch env u sr)), r)"
      by blast
    from Cons.IH [OF mem] show ?thesis unfolding r .
  qed
qed

lemma cycle_run_errors:
  "set (errors (snd (process_vouches env (getVouches (api env) (userKey (cfg env)))
                       (store w, empty_result))))
     \<subseteq> set (errors (fst (cycle_run env w)))"
  by (auto simp: cycle_run_def Let_def logMonitorRun_def split: option.splits)

lemma cycle_null_activity:
  assumes "\<not> isRunning w" and "v \<in> set (getVouches (api env) (userKey (cfg env)))"
    and "None \<in> set (relation_activities (api env) v)"
  shows "\<exists>e. (''Error processing relation '' @ string_of_int (v_subjectProfileId v)
                @ '': '' @ e) \<in> set (errors (fst (runMonitorCycle env w)))"
proof -
  from process_vouches_null [OF assms(2,3)] obtain e
    where "(''Error processing relation '' @ string_of_int (v_subjectProfileId v) @ '': '' @ e)
             \<in> set (errors (snd (process_vouches env (getVouches (api env) (userKey (cfg env)))
                       (store (w\<lparr>isRunning := True\<rparr>), empty_result))))"
    by blast
  with cycle_run_errors [of env "w\<lparr>isRunning := True\<rparr>"]
  have "(''Error processing relation '' @ string_of_int (v_subjectProfileId v) @ '': '' @ e)
             \<in> set (errors (fst (cycle_run env (w\<lparr>isRunning := True\<rparr>))))"
    by blast
  then show ?thesis unfolding runMonitorCycle_idle [OF assms(1)] by blast
qed

text \<open>A cycle over one relation, when the log write succeeds.\<close>

lemma cycle_single_relation:
  assumes "getVouches (api env) (userKey (cfg env)) = [v]" and "\<not> isRunning w"
    and "log_fault env = None"
  shows "errors (fst (runMonitorCycle env w))
           = (case process_vouch env v (store w, empty_result) of
                Normal s \<Rightarrow> []
              | Abrupt e s \<Rightarrow> [''Error processing relation ''
                                @ string_of_int (v_subjectProfileId v) @ '': '' @ e])"
    and "reviewsFound (fst (runMonitorCycle env w))
           = reviewsFound (snd (state_of (process_vouch env v (store w, empty_result))))"
proof -
  have e: "errors (snd (state_of (process_vouch env v (store w, empty_result)))) = []"
    by (simp add: process_vouch_errors empty_result_def)
  have c: "fst (runMonitorCycle env w)
             = (snd (process_vouches env [v] (store w, empty_result)))
                 \<lparr>duration := clock_end env - clock env\<rparr>"
    by (simp add: runMonitorCycle_idle [OF assms(2)] cycle_run_def assms(1,3) Let_def
        logMonitorRun_def)
  show "errors (fst (runMonitorCycle env w))
           = (case process_vouch env v (store w, empty_result) of
                Normal s \<Rightarrow> []
              | Abrupt e s \<Rightarrow> [''Error processing relation ''
                                @ string_of_int (v_subjectProfileId v) @ '': '' @ e])"
    using e unfolding c by (cases "process_vouch env v (store w, empty_result)") simp_all
  show "reviewsFound (fst (runMonitorCycle env w))
           = reviewsFound (snd (state_of (process_vouch env v (store w, empty_result))))"
    unfolding c by (cases "process_vouch env v (store w, empty_result)") simp_all
qed

lemma tracked_profile:
  "\<exists>pd. resolve_profile net (convert_vouch tracked_raw) = Returns (Some pd)
        \<and> present (pd_address pd)"
  by (simp add: resolve_profile_def embedded_profile_def convert_vouch_def tracked_raw_def
      or_else_def present_def Let_def)

lemma tracked_subject: "string_of_int (v_subjectProfileId (convert_vouch tracked_raw)) = ''12''"
  by (simp add: convert_vouch_def tracked_raw_def string_of_int_def string_of_nat.simps
      digit_char_def)

lemma null_env_facts:
  "api null_env = serving None" "userKey (cfg null_env) = ''profileId:1''"
  "log_fault null_env = None"
  by (simp_all add: null_env_def demo_env_def demo_config_def)

lemma empty_env_facts:
  "api empty_env = (serving None)\<lparr>activities_http := (\<lambda>k. Ok empty_page)\<rparr>"
  "userKey (cfg empty_env) = ''profileId:1''" "log_fault empty_env = None"
  by (simp_all add: empty_env_def demo_env_def demo_config_def)

lemma null_env_listing:
  "getVouches (api null_env) (userKey (cfg null_env)) = [convert_vouch tracked_raw]"
  "getReceivedActivities (api null_env) k = [None]"
  "relation_activities (api null_env) (convert_vouch tracked_raw) = [None]"
  by (simp_all add: null_env_facts serving_vouches serving_activities)
     (simp add: getReceivedActivities_def serving_def)

lemma empty_env_listing:
  "getVouches (api empty_env) (userKey (cfg empty_env)) = [convert_vouch tracked_raw]"
  "getReceivedActivities (api empty_env) k = []"
  "relation_activities (api empty_env) (convert_vouch tracked_raw) = []"
proof -
  show "getVouches (api empty_env) (userKey (cfg empty_env)) = [convert_vouch tracked_raw]"
    by (simp add: empty_env_facts serving_vouches)
  show g: "getReceivedActivities (api empty_env) k = []" for k
    by (simp add: empty_env_facts getReceivedActivities_def empty_page_def)
  from tracked_profile [of "api empty_env"] obtain pd
    where "resolve_profile (api empty_env) (convert_vouch tracked_raw) = Returns (Some pd)"
      "present (pd_address pd)" by blast
  then show "relation_activities (api empty_env) (convert_vouch tracked_raw) = []"
    by (simp add: relation_activities_def g)
qed

text \<open>
  C10 as stated fails. When the answer to the activity fetch of a relation is the list
  \<open>[null]\<close>, \<open>getReceivedActivities\<close> returns that list, not the empty one; the cycle counts
  one activity found, \<open>processActivity\<close> throws on it, and the error of the relation is in
  the result. The same cycle over an empty list finds nothing and has no error.
\<close>

theorem null_activity_recorded_as_error:
  "getReceivedActivities (api null_env) ''profileId:12'' = [None]
   \<and> errors (fst (runMonitorCycle null_env empty_world))
       = [''Error processing relation 12: TypeError: Cannot read properties of null (reading 'data')'']
   \<and> reviewsFound (fst (runMonitorCycle null_env empty_world)) = 1
   \<and> getReceivedActivities (api empty_env) ''profileId:12'' = []
   \<and> errors (fst (runMonitorCycle empty_env empty_world)) = []
   \<and> reviewsFound (fst (runMonitorCycle empty_env empty_world)) = 0"
proof -
  let ?v = "convert_vouch tracked_raw"
  let ?sr = "(store empty_world, empty_result)"
  from tracked_profile [of "api null_env"] obtain pd
    where pd: "resolve_profile (api null_env) ?v = Returns (Some pd)" "present (pd_address pd)"
    by blast
  from process_vouch_listed [OF pd, of ?sr] obtain st res
    where "process_vouch null_env ?v ?sr
             = process_activities null_env (string_of_int (v_id ?v))
                 (relation_activities (api null_env) ?v) (st, res)"
      and res: "reviewsFound res
                  = reviewsFound (snd ?sr) + length (relation_activities (api null_env) ?v)"
    by blast
  then have p: "process_vouch null_env ?v ?sr = Abrupt null_activity_error (st, res)"
    by (simp add: null_env_listing(3) processActivity_null)
  have f: "reviewsFound res = 1" using res by (simp add: null_env_listing(3) empty_result_def)
  have 1: "errors (fst (runMonitorCycle null_env empty_world))
       = [''Error processing relation 12: TypeError: Cannot read properties of null (reading 'data')'']"
    unfolding cycle_single_relation(1) [OF null_env_listing(1) empty_world_ok(2) null_env_facts(3)]
    by (simp add: p tracked_subject null_activity_error_def)
  have 2: "reviewsFound (fst (runMonitorCycle null_env empty_world)) = 1"
    unfolding cycle_single_relation(2) [OF null_env_listing(1) empty_world_ok(2) null_env_facts(3)]
    by (simp add: p f)
  from tracked_profile [of "api empty_env"] obtain pd'
    where pd': "resolve_profile (api empty_env) ?v = Returns (Some pd')"
      "present (pd_address pd')"
    by blast
  from process_vouch_listed [OF pd', of ?sr] obtain st' res'
    where "process_vouch empty_env ?v ?sr
             = process_activities empty_env (string_of_int (v_id ?v))
                 (relation_activities (api empty_env) ?v) (st', res')"
      and res': "reviewsFound res'
                  = reviewsFound (snd ?sr) + length (relation_activities (api empty_env) ?v)"
    by blast
  then have p': "process_vouch empty_env ?v ?sr = Normal (st', res')"
    by (simp add: empty_env_listing(3))
  have f': "reviewsFound res' = 0"
    using res' by (simp add: empty_env_listing(3) empty_result_def)
  have 3: "errors (fst (runMonitorCycle empty_env empty_world)) = []"
    unfolding cycle_single_relation(1) [OF empty_env_listing(1) empty_world_ok(2) empty_env_facts(3)]
    by (simp add: p')
  have 4: "reviewsFound (fst (runMonitorCycle empty_env empty_world)) = 0"
    unfolding cycle_single_relation(2) [OF empty_env_listing(1) empty_world_ok(2) empty_env_facts(3)]
    by (simp add: p' f')
  from null_env_listing(2) 1 2 empty_env_listing(2) 3 4 show ?thesis
    by - (intro conjI; assumption)
qed

text \<open>
  C10, amended. \<open>getVouches\<close> and \<open>getReceivedActivities\<close> are total, they return a list
  whatever the network does. \<open>getVouches\<close> returns the empty list when no profile id can be
  extracted from the userkey, when the request fails, and when the response is malformed
  (its \<open>values\<close> is not an array, or is an array with a \<open>null\<close> element);
  \<open>getReceivedActivities\<close> when the request fails and when the list it reads from the
  response (\<open>values\<close>, or \<open>activities\<close> when there is no \<open>values\<close>) is not an array. A cycle
  in which a listing fails returns the same result and leaves the same state as the cycle
  in which that listing answers with an empty page, as do two cycles over networks on
  which the operations return the same lists; a cycle without relations has no error but
  that of the log write. A list that is an array is returned by
  \<open>getReceivedActivities\<close> as it is: \<open>processActivity\<close> throws on an element that is \<open>null\<close>
  and leaves the store and the counts as they were, and in a cycle the relation whose list
  holds such an element has its error in the result.
\<close>

theorem listing_failures_are_empty:
  "(extractProfileId key = None \<or> extractProfileId key = Some None
      \<or> extractProfileId key = Some (Some 0) \<longrightarrow> getVouches net key = [])
   \<and> (extractProfileId key = Some (Some pid) \<and> vouches_http net pid = Failed status msg
        \<longrightarrow> getVouches net key = [])
   \<and> (extractProfileId key = Some (Some pid) \<and> vouches_http net pid = Ok vb
        \<and> (\<forall>vs. body_values vb = Array vs \<longrightarrow> None \<in> set vs)
        \<longrightarrow> getVouches net key = [])
   \<and> (activities_http net k = Failed status msg \<longrightarrow> getReceivedActivities net k = [])
   \<and> (activities_http net k = Ok ab \<and> (\<forall>xs. body_values ab \<noteq> Array xs)
        \<and> (body_values ab = Missing \<longrightarrow> (\<forall>xs. body_activities ab \<noteq> Array xs))
        \<longrightarrow> getReceivedActivities net k = [])
   \<and> (vouches_http (api env) pid = Failed status msg \<longrightarrow>
         runMonitorCycle
           (env\<lparr>api := (api env)\<lparr>vouches_http := (vouches_http (api env))(pid := Ok empty_page)\<rparr>\<rparr>) w
           = runMonitorCycle env w)
   \<and> (activities_http (api env) k = Failed status msg \<longrightarrow>
         runMonitorCycle
           (env\<lparr>api := (api env)\<lparr>activities_http :=
                              (activities_http (api env))(k := Ok empty_page)\<rparr>\<rparr>) w
           = runMonitorCycle env w)
   \<and> (getVouches (api env) (userKey (cfg env)) = [] \<longrightarrow>
         errors (fst (cycle_run env w))
           = (case log_fault env of None \<Rightarrow> [] | Some e \<Rightarrow> [''Cycle failed: '' @ e]))
   \<and> (activities_http net k = Ok ab \<and> body_values ab = Array xs
        \<longrightarrow> getReceivedActivities net k = xs)
   \<and> (activities_http net k = Ok ab \<and> body_values ab = Missing \<and> body_activities ab = Array xs
        \<longrightarrow> getReceivedActivities net k = xs)
   \<and> processActivity env None rid sr = Abrupt null_activity_error sr
   \<and> (\<not> isRunning w \<and> v \<in> set (getVouches (api env) (userKey (cfg env)))
        \<and> None \<in> set (relation_activities (api env) v)
        \<longrightarrow> (\<exists>e. (''Error processing relation '' @ string_of_int (v_subjectProfileId v)
                     @ '': '' @ e) \<in> set (errors (fst (runMonitorCycle env w)))))
   \<and> (getVouches net = getVouches (api env)
        \<and> getReceivedActivities net = getReceivedActivities (api env)
        \<and> getProfile net = getProfile (api env)
        \<longrightarrow> runMonitorCycle (env\<lparr>api := net\<rparr>) w = runMonitorCycle env w)"
proof -
  have 1: "extractProfileId key = None \<or> extractProfileId key = Some None
      \<or> extractProfileId key = Some (Some 0) \<longrightarrow> getVouches net key = []"
    using getVouches_no_profile by blast
  have 2: "extractProfileId key = Some (Some pid) \<and> vouches_http net pid = Failed status msg
        \<longrightarrow> getVouches net key = []"
    using getVouches_failed by blast
  have 3: "extractProfileId key = Some (Some pid) \<and> vouches_http net pid = Ok vb
        \<and> (\<forall>vs. body_values vb = Array vs \<longrightarrow> None \<in> set vs)
        \<longrightarrow> getVouches net key = []"
    using getVouches_malformed by blast
  have 4: "activities_http net k = Failed status msg \<longrightarrow> getReceivedActivities net k = []"
    using getReceivedActivities_failed by blast
  have 5: "activities_http net k = Ok ab \<and> (\<forall>xs. body_values ab \<noteq> Array xs)
        \<and> (body_values ab = Missing \<longrightarrow> (\<forall>xs. body_activities ab \<noteq> Array xs))
        \<longrightarrow> getReceivedActivities net k = []"
    using getReceivedActivities_no_array [of net k ab] by blast
  have 6: "vouches_http (api env) pid = Failed status msg \<longrightarrow>
         runMonitorCycle
           (env\<lparr>api := (api env)\<lparr>vouches_http := (vouches_http (api env))(pid := Ok empty_page)\<rparr>\<rparr>) w
           = runMonitorCycle env w"
  proof
    assume f: "vouches_http (api env) pid = Failed status msg"
    have "runMonitorCycle
           (env\<lparr>api := (api env)\<lparr>vouches_http := (vouches_http (api env))(pid := Ok empty_page)\<rparr>\<rparr>) w
           = runMonitorCycle (env\<lparr>api := api env\<rparr>) w"
      by (rule runMonitorCycle_cong) (simp_all add: getVouches_upd [OF f])
    then show "runMonitorCycle
           (env\<lparr>api := (api env)\<lparr>vouches_http := (vouches_http (api env))(pid := Ok empty_page)\<rparr>\<rparr>) w
           = runMonitorCycle env w"
      by (simp only: env_api_same)
  qed
  have 7: "activities_http (api env) k = Failed status msg \<longrightarrow>
         runMonitorCycle
           (env\<lparr>api := (api env)\<lparr>activities_http :=
                              (activities_http (api env))(k := Ok empty_page)\<rparr>\<rparr>) w
           = runMonitorCycle env w"
  proof
    assume f: "activities_http (api env) k = Failed status msg"
    have "runMonitorCycle
           (env\<lparr>api := (api env)\<lparr>activities_http :=
                              (activities_http (api env))(k := Ok empty_page)\<rparr>\<rparr>) w
           = runMonitorCycle (env\<lparr>api := api env\<rparr>) w"
      by (rule runMonitorCycle_cong) (simp_all add: getReceivedActivities_upd [OF f])
    then show "runMonitorCycle
           (env\<lparr>api := (api env)\<lparr>activities_http :=
                              (activities_http (api env))(k := Ok empty_page)\<rparr>\<rparr>) w
           = runMonitorCycle env w"
      by (simp only: env_api_same)
  qed
  have 8: "getVouches (api env) (userKey (cfg env)) = [] \<longrightarrow>
         errors (fst (cycle_run env w))
           = (case log_fault env of None \<Rightarrow> [] | Some e \<Rightarrow> [''Cycle failed: '' @ e])"
    using cycle_run_no_vouches by blast
  have 9: "activities_http net k = Ok ab \<and> body_values ab = Array xs
        \<longrightarrow> getReceivedActivities net k = xs"
    using getReceivedActivities_values by blast
  have 10: "activities_http net k = Ok ab \<and> body_values ab = Missing
        \<and> body_activities ab = Array xs \<longrightarrow> getReceivedActivities net k = xs"
    using getReceivedActivities_activities by blast
  have 11: "processActivity env None rid sr = Abrupt null_activity_error sr"
    by (rule processActivity_null)
  have 12: "\<not> isRunning w \<and> v \<in> set (getVouches (api env) (userKey (cfg env)))
        \<and> None \<in> set (relation_activities (api env) v)
        \<longrightarrow> (\<exists>e. (''Error processing relation '' @ string_of_int (v_subjectProfileId v)
                     @ '': '' @ e) \<in> set (errors (fst (runMonitorCycle env w))))"
    using cycle_null_activity by blast
  have 13: "getVouches net = getVouches (api env)
        \<and> getReceivedActivities net = getReceivedActivities (api env)
        \<and> getProfile net = getProfile (api env)
        \<longrightarrow> runMonitorCycle (env\<lparr>api := net\<rparr>) w = runMonitorCycle env w"
  proof
    assume a: "getVouches net = getVouches (api env)
        \<and> getReceivedActivities net = getReceivedActivities (api env)
        \<and> getProfile net = getProfile (api env)"
    then have "runMonitorCycle (env\<lparr>api := net\<rparr>) w = runMonitorCycle (env\<lparr>api := api env\<rparr>) w"
      by (intro runMonitorCycle_cong) simp_all
    then show "runMonitorCycle (env\<lparr>api := net\<rparr>) w = runMonitorCycle env w"
      by (simp only: env_api_same)
  qed
  from 1 2 3 4 5 6 7 8 9 10 11 12 13 show ?thesis by - (intro conjI; assumption)
qed

theorem listing_failures_are_empty_witness:
  "getVouches quiet_api ''address:0xabc'' = []
   \<and> getVouches quiet_api ''profileId:1'' = []
   \<and> getVouches (quiet_api\<lparr>vouches_http := (\<lambda>p. Ok (Object (Array [None]) Missing))\<rparr>)
         ''profileId:1'' = []
   \<and> getReceivedActivities quiet_api ''profileId:12'' = []
   \<and> getReceivedActivities
         (quiet_api\<lparr>activities_http := (\<lambda>k. Ok (Object NonArray (Array [None])))\<rparr>)
         ''profileId:12'' = []
   \<and> runMonitorCycle
         (demo_env\<lparr>api := (api demo_env)\<lparr>vouches_http :=
                                 (vouches_http (api demo_env))(1 := Ok empty_page)\<rparr>\<rparr>) idle_world
       = runMonitorCycle demo_env idle_world
   \<and> runMonitorCycle
         (demo_env\<lparr>api := (api demo_env)\<lparr>activities_http :=
                    (activities_http (api demo_env))(''profileId:12'' := Ok empty_page)\<rparr>\<rparr>)
         idle_world
       = runMonitorCycle demo_env idle_world
   \<and> errors (fst (cycle_run demo_env idle_world)) = []
   \<and> getReceivedActivities (api null_env) ''profileId:12'' = [None]
   \<and> getReceivedActivities
         (quiet_api\<lparr>activities_http := (\<lambda>k. Ok (Object Missing (Array [None])))\<rparr>)
         ''profileId:12'' = [None]
   \<and> (\<exists>e. (''Error processing relation 12: '' @ e)
             \<in> set (errors (fst (runMonitorCycle null_env empty_world))))
   \<and> runMonitorCycle
         (demo_env\<lparr>api := quiet_api\<lparr>activities_http :=
                                 (\<lambda>k. Ok (Object NonArray (Array [None])))\<rparr>\<rparr>) idle_world
       = runMonitorCycle demo_env idle_world"
proof -
  have v: "vouches_http quiet_api 1 = Failed None ''offline''"
    and a: "activities_http quiet_api ''profileId:12'' = Failed None ''offline''"
    by (simp_all add: quiet_api_def)
  have e: "api demo_env = quiet_api" "userKey (cfg demo_env) = ''profileId:1''"
    "log_fault demo_env = None"
    by (simp_all add: demo_env_def demo_config_def)
  have k: "extractProfileId ''address:0xabc'' = None"
    by (simp add: extractProfileId_def startsWith_def)
  note t = listing_failures_are_empty [where key = "''profileId:1''" and pid = 1
      and net = quiet_api and status = None and msg = "''offline''"
      and k = "''profileId:12''" and env = demo_env and w = idle_world]
  from listing_failures_are_empty [where key = "''address:0xabc''" and net = quiet_api] k
  have f: "getVouches quiet_api ''address:0xabc'' = []" by simp
  from t demo_profile_id v have g: "getVouches quiet_api ''profileId:1'' = []" by blast
  from t a have r: "getReceivedActivities quiet_api ''profileId:12'' = []" by blast
  from t g e have c: "errors (fst (cycle_run demo_env idle_world)) = []" by simp
  from t v e(1) have q: "runMonitorCycle
         (demo_env\<lparr>api := (api demo_env)\<lparr>vouches_http :=
                                 (vouches_http (api demo_env))(1 := Ok empty_page)\<rparr>\<rparr>) idle_world
       = runMonitorCycle demo_env idle_world"
    by simp
  from t a e(1) have q': "runMonitorCycle
         (demo_env\<lparr>api := (api demo_env)\<lparr>activities_http :=
                    (activities_http (api demo_env))(''profileId:12'' := Ok empty_page)\<rparr>\<rparr>)
         idle_world
       = runMonitorCycle demo_env idle_world"
    by simp
  from listing_failures_are_empty [where key = "''profileId:1''" and pid = 1
      and net = "quiet_api\<lparr>vouches_http := (\<lambda>p. Ok (Object (Array [None]) Missing))\<rparr>"
      and vb = "Object (Array [None]) Missing"] demo_profile_id
  have h: "getVouches (quiet_api\<lparr>vouches_http := (\<lambda>p. Ok (Object (Array [None]) Missing))\<rparr>)
         ''profileId:1'' = []"
    by simp
  from listing_failures_are_empty [where k = "''profileId:12''"
      and net = "quiet_api\<lparr>activities_http := (\<lambda>k. Ok (Object NonArray (Array [None])))\<rparr>"
      and ab = "Object NonArray (Array [None])"]
  have j: "getReceivedActivities
         (quiet_api\<lparr>activities_http := (\<lambda>k. Ok (Object NonArray (Array [None])))\<rparr>)
         ''profileId:12'' = []"
    by simp
  from listing_failures_are_empty [where k = "''profileId:12''"
      and net = "quiet_api\<lparr>activities_http := (\<lambda>k. Ok (Object Missing (Array [None])))\<rparr>"
      and ab = "Object Missing (Array [None])" and xs = "[None]"]
  have i: "getReceivedActivities
         (quiet_api\<lparr>activities_http := (\<lambda>k. Ok (Object Missing (Array [None])))\<rparr>)
         ''profileId:12'' = [None]"
    by simp
  have n: "activities_http (api null_env) ''profileId:12'' = Ok (Object (Array [None]) Missing)"
    by (simp add: null_env_facts serving_def)
  have m: "convert_vouch tracked_raw \<in> set (getVouches (api null_env) (userKey (cfg null_env)))"
    "None \<in> set (relation_activities (api null_env) (convert_vouch tracked_raw))"
    by (simp_all add: null_env_listing)
  note u = listing_failures_are_empty [where net = "api null_env" and k = "''profileId:12''"
      and ab = "Object (Array [None]) Missing" and xs = "[None]" and env = null_env
      and w = empty_world and v = "convert_vouch tracked_raw"]
  from u n have l: "getReceivedActivities (api null_env) ''profileId:12'' = [None]" by simp
  from u m empty_world_ok(2)
  have "\<exists>e. (''Error processing relation ''
               @ string_of_int (v_subjectProfileId (convert_vouch tracked_raw)) @ '': '' @ e)
             \<in> set (errors (fst (runMonitorCycle null_env empty_world)))"
    by blast
  then have x: "\<exists>e. (''Error processing relation 12: '' @ e)
             \<in> set (errors (fst (runMonitorCycle null_env empty_world)))"
    by (simp add: tracked_subject)
  have same: "getVouches (quiet_api\<lparr>activities_http :=
                 (\<lambda>k. Ok (Object NonArray (Array [None])))\<rparr>) = getVouches (api demo_env)"
    "getReceivedActivities (quiet_api\<lparr>activities_http :=
                 (\<lambda>k. Ok (Object NonArray (Array [None])))\<rparr>)
       = getReceivedActivities (api demo_env)"
    "getProfile (quiet_api\<lparr>activities_http :=
                 (\<lambda>k. Ok (Object NonArray (Array [None])))\<rparr>) = getProfile (api demo_env)"
    by (simp_all add: e(1))
       (intro ext, simp add: getReceivedActivities_def quiet_api_def)
  from listing_failures_are_empty [where env = demo_env and w = idle_world
      and net = "quiet_api\<lparr>activities_http := (\<lambda>k. Ok (Object NonArray (Array [None])))\<rparr>"]
    same
  have y: "runMonitorCycle
         (demo_env\<lparr>api := quiet_api\<lparr>activities_http :=
                                 (\<lambda>k. Ok (Object NonArray (Array [None])))\<rparr>\<rparr>) idle_world
       = runMonitorCycle demo_env idle_world"
    by simp
  from f g h r j q q' c l i x y show ?thesis by - (intro conjI; assumption)
qed

end
